theory Spec2Isabelle
  imports Complex_Main
begin

section \<open>Numbers and vectors\<close>

text \<open>
  The game is written in JavaScript; every number of the source is modelled as a
  \<^typ>\<open>real\<close> (or as an \<^typ>\<open>int\<close> where the source only ever stores integers: the
  fling count and the death heights). Decimal literals of the source (\<open>0.9\<close>, \<open>1.2\<close>,
  \<open>0.02\<close>) are the rationals they denote, and \<open>Math.PI\<close> is the decimal that
  JavaScript prints for it. The vectors are those of the Victor library:
  mutable pairs, which the game always clones before it combines them, so a vector is a
  value here.
\<close>

datatype Victor = Victor (vx: real) (vy: real)

definition add :: "Victor \<Rightarrow> Victor \<Rightarrow> Victor" where
  "add u v = Victor (vx u + vx v) (vy u + vy v)"

definition subtract :: "Victor \<Rightarrow> Victor \<Rightarrow> Victor" where
  "subtract u v = Victor (vx u - vx v) (vy u - vy v)"

definition multiplyScalar :: "Victor \<Rightarrow> real \<Rightarrow> Victor" where
  "multiplyScalar v s = Victor (vx v * s) (vy v * s)"

definition lengthSq :: "Victor \<Rightarrow> real" where
  "lengthSq v = vx v * vx v + vy v * vy v"

definition distanceSq :: "Victor \<Rightarrow> Victor \<Rightarrow> real" where
  "distanceSq u v = (let dx = vx u - vx v; dy = vy u - vy v in dx * dx + dy * dy)"

subsection \<open>Utility functions of the game\<close>

definition lerp :: "real \<Rightarrow> real \<Rightarrow> real \<Rightarrow> real" where
  "lerp lo hi progress = lo + (hi - lo) * progress"

definition lerp2D :: "Victor \<Rightarrow> Victor \<Rightarrow> real \<Rightarrow> Victor" where
  "lerp2D lo hi progress = add lo (multiplyScalar (subtract hi lo) progress)"

definition isColliding :: "Victor \<Rightarrow> real \<Rightarrow> Victor \<Rightarrow> real \<Rightarrow> bool" where
  "isColliding p1 r1 p2 r2 =
     (let radiusTotal = r1 + r2 in distanceSq p1 p2 < radiusTotal * radiusTotal)"

subsection \<open>Constants\<close>

definition APP_SIZE :: Victor where "APP_SIZE = Victor 500 750"
definition CAMERA_POSITION_DEFAULT :: Victor where
  "CAMERA_POSITION_DEFAULT = Victor (vx APP_SIZE * 0.5) 0"
definition CAMERA_ZOOM_DEFAULT :: real where "CAMERA_ZOOM_DEFAULT = 1"
definition CAMERA_ZOOM_AIMING :: real where "CAMERA_ZOOM_AIMING = CAMERA_ZOOM_DEFAULT * 1.5"
definition CAMERA_EASING_FACTOR :: real where "CAMERA_EASING_FACTOR = 0.1"
definition CAMERA_AIMING_EASING_FACTOR :: real where "CAMERA_AIMING_EASING_FACTOR = 0.05"
definition CAMERA_SPEEDING_EASING_FACTOR :: real where "CAMERA_SPEEDING_EASING_FACTOR = 0.3"
definition MENU_TRANSITION_HEIGHT :: real where "MENU_TRANSITION_HEIGHT = - 1000"
definition FRICTION :: real where "FRICTION = 0.9"
definition GRAVITY :: Victor where "GRAVITY = Victor 0 100000"
definition TIME_EASING_FACTOR :: real where "TIME_EASING_FACTOR = 0.1"
definition WAVE_SPEED :: real where "WAVE_SPEED = 200"
definition ORB_BOOST_MULTIPLIER :: real where "ORB_BOOST_MULTIPLIER = 1.2"
definition FLING_FORCE_MIN :: real where "FLING_FORCE_MIN = 3500"
definition STARTING_FLINGS :: int where "STARTING_FLINGS = 5"
definition AIMING_BALLS_AMOUNT :: nat where "AIMING_BALLS_AMOUNT = 4"
definition INV_TOTAL_AIM_INDICATORS :: real where
  "INV_TOTAL_AIM_INDICATORS = 1 / (real AIMING_BALLS_AMOUNT + 1)"
definition Math_PI :: real where "Math_PI = 3.141592653589793"
definition TWO_PI :: real where "TWO_PI = Math_PI * 2"

section \<open>Physics objects\<close>

text \<open>
  \<open>class PhysicsObject\<close>: the fields that the simulation reads. \<open>pixiScale\<close> is the
  (uniform) scale that \<open>setScale\<close> stores in the PIXI object and \<open>getScale\<close> reads;
  the PIXI position, which \<open>updatePosition\<close> copies from \<open>vectorPosition\<close> for
  drawing only, is left out.
\<close>

record PhysicsObject =
  baseColliderRadius :: real
  colliderRadius :: real
  vectorPosition :: Victor
  velocity :: Victor
  momentOfAcceleration :: Victor
  pixiScale :: real

text \<open>\<open>PhysicsObject.update()\<close>, reading the global \<open>timeSpeed\<close> as a parameter.\<close>

definition PhysicsObject_update ::
  "real \<Rightarrow> 'a PhysicsObject_scheme \<Rightarrow> 'a PhysicsObject_scheme" where
  "PhysicsObject_update ts p =
     (let p1 = p\<lparr>velocity := add (velocity p) (multiplyScalar (momentOfAcceleration p) ts)\<rparr>;
          p2 = p1\<lparr>vectorPosition := add (vectorPosition p1) (multiplyScalar (velocity p1) ts)\<rparr>;
          p3 = p2\<lparr>velocity :=
                 subtract (velocity p2) (multiplyScalar (velocity p2) (FRICTION * ts))\<rparr>
      in p3\<lparr>momentOfAcceleration := Victor 0 0\<rparr>)"

definition setScale :: "real \<Rightarrow> 'a PhysicsObject_scheme \<Rightarrow> 'a PhysicsObject_scheme" where
  "setScale s p = p\<lparr>pixiScale := s, colliderRadius := baseColliderRadius p * s\<rparr>"

text \<open>A run of integration ticks, one per entry of a sequence of \<open>timeSpeed\<close> values.\<close>

fun integrate :: "real list \<Rightarrow> 'a PhysicsObject_scheme \<Rightarrow> 'a PhysicsObject_scheme" where
  "integrate [] p = p"
| "integrate (ts # tss) p = integrate tss (PhysicsObject_update ts p)"

section \<open>PIXI geometry\<close>

text \<open>
  \<open>PIXI.Rectangle\<close> and \<open>PIXI.Matrix\<close> belong to the rendering library, not to the
  game; they are written here as the library computes them. \<open>applyInverse\<close> divides by
  the determinant, which is the square of the camera's zoom: the model is the library's
  only for a zoom other than 0 (JavaScript yields infinities there, HOL yields 0).
\<close>

record Rectangle =
  rect_x :: real
  rect_y :: real
  rect_width :: real
  rect_height :: real

definition rect_left :: "Rectangle \<Rightarrow> real" where "rect_left r = rect_x r"
definition rect_right :: "Rectangle \<Rightarrow> real" where "rect_right r = rect_x r + rect_width r"
definition rect_top :: "Rectangle \<Rightarrow> real" where "rect_top r = rect_y r"
definition rect_bottom :: "Rectangle \<Rightarrow> real" where "rect_bottom r = rect_y r + rect_height r"

definition rect_contains :: "Rectangle \<Rightarrow> real \<Rightarrow> real \<Rightarrow> bool" where
  "rect_contains r px py =
     (if rect_width r \<le> 0 \<or> rect_height r \<le> 0 then False
      else if px \<ge> rect_x r \<and> px < rect_x r + rect_width r
      then (if py \<ge> rect_y r \<and> py < rect_y r + rect_height r then True else False)
      else False)"

record Matrix =
  ma :: real
  mb :: real
  mc :: real
  md :: real
  mtx :: real
  mty :: real

definition Matrix_identity :: Matrix where
  "Matrix_identity = \<lparr>ma = 1, mb = 0, mc = 0, md = 1, mtx = 0, mty = 0\<rparr>"

definition Matrix_translate :: "real \<Rightarrow> real \<Rightarrow> Matrix \<Rightarrow> Matrix" where
  "Matrix_translate dx dy m = m\<lparr>mtx := mtx m + dx, mty := mty m + dy\<rparr>"

definition Matrix_scale :: "real \<Rightarrow> real \<Rightarrow> Matrix \<Rightarrow> Matrix" where
  "Matrix_scale sx sy m =
     m\<lparr>ma := ma m * sx, md := md m * sy, mc := mc m * sx, mb := mb m * sy,
       mtx := mtx m * sx, mty := mty m * sy\<rparr>"

definition Matrix_applyInverse :: "Matrix \<Rightarrow> Victor \<Rightarrow> Victor" where
  "Matrix_applyInverse m pos =
     (let idet = 1 / (ma m * md m + mc m * - mb m);
          px = vx pos; py = vy pos
      in Victor (md m * idet * px + - mc m * idet * py + (mty m * mc m - mtx m * md m) * idet)
                (ma m * idet * py + - mb m * idet * px + (- mty m * ma m + mtx m * mb m) * idet))"

section \<open>Camera\<close>

record Camera =
  position :: Victor
  zoom :: real
  matrix :: Matrix
  boundingRectangle :: Rectangle
  nextCameraBound :: Rectangle
  xBounds :: Victor

definition easeTo :: "Victor \<Rightarrow> real \<Rightarrow> real \<Rightarrow> Camera \<Rightarrow> Camera" where
  "easeTo targetPosition targetZoom easingFactor cam =
     (let cam1 = cam\<lparr>position := lerp2D (position cam) targetPosition easingFactor\<rparr>
      in cam1\<lparr>zoom := lerp (zoom cam1) targetZoom easingFactor\<rparr>)"

definition canvasToWorld :: "Camera \<Rightarrow> Victor \<Rightarrow> Victor" where
  "canvasToWorld cam canvasPosition = Matrix_applyInverse (matrix cam) canvasPosition"

definition computeBoundingRectangle :: "Camera \<Rightarrow> Camera" where
  "computeBoundingRectangle cam =
     (let topLeft = canvasToWorld cam (Victor 0 0);
          bottomRight = canvasToWorld cam (Victor (vx APP_SIZE) (vy APP_SIZE));
          cam1 = cam\<lparr>boundingRectangle :=
                   \<lparr>rect_x = vx topLeft, rect_y = vy topLeft,
                    rect_width = vx bottomRight - vx topLeft,
                    rect_height = vy bottomRight - vy topLeft\<rparr>\<rparr>;
          nb = boundingRectangle cam1
      in cam1\<lparr>nextCameraBound := nb\<lparr>rect_y := rect_y nb - rect_height nb\<rparr>\<rparr>)"

definition computeMatrix :: "Camera \<Rightarrow> Camera" where
  "computeMatrix cam =
     computeBoundingRectangle
       (cam\<lparr>matrix :=
          Matrix_translate (vx APP_SIZE * 0.5) (vy APP_SIZE * 0.5)
            (Matrix_scale (zoom cam) (zoom cam)
              (Matrix_translate (- vx (position cam)) (- vy (position cam))
                Matrix_identity))\<rparr>)"

text \<open>\<open>Camera.update()\<close>; handing the matrix to the stage is drawing and left out.\<close>

definition Camera_update :: "Camera \<Rightarrow> Camera" where
  "Camera_update cam =
     (let cam1 = computeMatrix cam;
          overlapLeft = rect_left (boundingRectangle cam1) - vx (xBounds cam1);
          overlapRight = rect_right (boundingRectangle cam1) - vy (xBounds cam1)
      in if overlapLeft < 0
         then computeMatrix
                (cam1\<lparr>position := Victor (vx (position cam1) - overlapLeft)
                                          (vy (position cam1))\<rparr>)
         else if overlapRight > 0
         then computeMatrix
                (cam1\<lparr>position := Victor (vx (position cam1) - overlapRight)
                                          (vy (position cam1))\<rparr>)
         else cam1)"

section \<open>The world: every object and global variable of the game\<close>

datatype PLAYER_STATE = Dead | Idle | Aiming | Tutorial

datatype SCENE_ID = SCENE_Menu | SCENE_Game

datatype SFX_ID = SFX_Select | SFX_Swipe | SFX_Back | SFX_Aim | SFX_Fling | SFX_Orb
  | SFX_Spike | SFX_Death

text \<open>
  \<open>class Obstacle\<close> (orbs and spikes) adds the rotation that a spike draws on respawn.
  \<open>class Player\<close> adds the state machine's fields. Its list of aiming indicators has
  a fixed number of slots from the constructor on (two balls, the number, two balls), so
  it is a function from the slot's index to the slot's position; the indicators' scale,
  alpha and tint are only drawn, never read by the simulation, and are left out.
  \<open>aimingNumberText\<close> is the number whose decimal string the fling counter shows.
\<close>

record Obstacle = PhysicsObject +
  rotation :: real

record Player = PhysicsObject +
  playerState :: PLAYER_STATE
  flings :: int
  flingForce :: Victor
  aimingIndicatorVisible :: bool
  aimingIndicatorList :: "nat \<Rightarrow> Victor"
  aimingNumberText :: int

record Wave =
  wave_x :: real
  wave_y :: real
  bounds :: Rectangle

text \<open>
  The globals. \<open>played\<close> logs the calls of \<open>playSound\<close>, \<open>localStorage\<close> the heights
  written under the key of the highest death, both latest last. \<open>Math.random()\<close>
  reads the next entry of \<open>randomSource\<close>.
\<close>

record World =
  PLAYER :: Player
  WAVE :: Wave
  CAMERA :: Camera
  ORBS :: "Obstacle list"
  SPIKES :: "Obstacle list"
  currentGameSpeed :: real
  targetGameSpeed :: real
  timeSpeed :: real
  APP_CLIENT_POSITION :: Victor
  mouseClientPosition :: Victor
  mouseCanvasPosition :: Victor
  mouseWorldPosition :: Victor
  mouseDown :: bool
  mouseDownCanvasPosition :: Victor
  mouseUpCanvasPosition :: Victor
  lastDeathHeight :: int
  highestDeathHeight :: int
  localStorage :: "int list"
  currentScene :: SCENE_ID
  played :: "SFX_ID list"
  randomSource :: "nat \<Rightarrow> real"
  randomCount :: nat

definition playSound :: "SFX_ID \<Rightarrow> World \<Rightarrow> World" where
  "playSound soundID w = w\<lparr>played := played w @ [soundID]\<rparr>"

subsection \<open>Random numbers\<close>

definition Math_random :: "World \<Rightarrow> real \<times> World" where
  "Math_random w = (randomSource w (randomCount w), w\<lparr>randomCount := Suc (randomCount w)\<rparr>)"

definition random_max :: "real \<Rightarrow> World \<Rightarrow> real \<times> World" where
  "random_max mx w = (case Math_random w of (r, w1) \<Rightarrow> (r * mx, w1))"

definition randomRange :: "real \<Rightarrow> real \<Rightarrow> World \<Rightarrow> real \<times> World" where
  "randomRange lo hi w = (case random_max (hi - lo) w of (r, w1) \<Rightarrow> (r + lo, w1))"

definition randomRange2D :: "Rectangle \<Rightarrow> World \<Rightarrow> Victor \<times> World" where
  "randomRange2D bnds w =
     (case randomRange (rect_x bnds) (rect_right bnds) w of (px, w1) \<Rightarrow>
      case randomRange (rect_y bnds) (rect_bottom bnds) w1 of (py, w2) \<Rightarrow>
        (Victor px py, w2))"

section \<open>Obstacles\<close>

text \<open>
  \<open>Obstacle.respawn(bounds, scaleMin, scaleMax)\<close>, and the overrides of the two
  subclasses: \<open>Orb.respawn\<close> and \<open>Spike.respawn\<close> fix the scale range, the spike draws
  a rotation as well. A method that mutates one obstacle and the globals returns both.
\<close>

definition Obstacle_respawn ::
  "Rectangle \<Rightarrow> real \<Rightarrow> real \<Rightarrow> Obstacle \<Rightarrow> World \<Rightarrow> Obstacle \<times> World" where
  "Obstacle_respawn bnds scaleMin scaleMax ob w =
     (case randomRange2D bnds w of (pos, w1) \<Rightarrow>
      case randomRange scaleMin scaleMax w1 of (s, w2) \<Rightarrow>
        (setScale s (ob\<lparr>vectorPosition := pos\<rparr>), w2))"

definition Orb_respawn :: "Rectangle \<Rightarrow> Obstacle \<Rightarrow> World \<Rightarrow> Obstacle \<times> World" where
  "Orb_respawn bnds ob w = Obstacle_respawn bnds 0.5 1 ob w"

definition Spike_respawn :: "Rectangle \<Rightarrow> Obstacle \<Rightarrow> World \<Rightarrow> Obstacle \<times> World" where
  "Spike_respawn bnds ob w =
     (case Obstacle_respawn bnds 0.5 1 ob w of (ob1, w1) \<Rightarrow>
      case random_max TWO_PI w1 of (r, w2) \<Rightarrow> (ob1\<lparr>rotation := r\<rparr>, w2))"

text \<open>
  \<open>Obstacle.destroy(bounds, particleEffect)\<close>: the particle effects of both subclasses
  are empty functions. The first parameter is the subclass's \<open>respawn\<close>.
\<close>

definition Obstacle_destroy ::
  "(Rectangle \<Rightarrow> Obstacle \<Rightarrow> World \<Rightarrow> Obstacle \<times> World) \<Rightarrow>
   Rectangle \<Rightarrow> Obstacle \<Rightarrow> World \<Rightarrow> Obstacle \<times> World" where
  "Obstacle_destroy respawn bnds ob w = respawn bnds ob w"

definition Orb_destroy :: "Rectangle \<Rightarrow> Obstacle \<Rightarrow> World \<Rightarrow> Obstacle \<times> World" where
  "Orb_destroy bnds ob w =
     (case Obstacle_destroy Orb_respawn bnds ob w of (ob1, w1) \<Rightarrow> (ob1, playSound SFX_Orb w1))"

definition Spike_destroy :: "Rectangle \<Rightarrow> Obstacle \<Rightarrow> World \<Rightarrow> Obstacle \<times> World" where
  "Spike_destroy bnds ob w =
     (case Obstacle_destroy Spike_respawn bnds ob w of (ob1, w1) \<Rightarrow>
        (ob1, playSound SFX_Spike (playSound SFX_Orb w1)))"

text \<open>\<open>Obstacle.update()\<close>: it overrides the integration step and never calls it.\<close>

definition Obstacle_update ::
  "(Rectangle \<Rightarrow> Obstacle \<Rightarrow> World \<Rightarrow> Obstacle \<times> World) \<Rightarrow>
   Obstacle \<Rightarrow> World \<Rightarrow> Obstacle \<times> World" where
  "Obstacle_update respawn ob w =
     (if vy (vectorPosition ob) > wave_y (WAVE w) + 100
      then respawn (nextCameraBound (CAMERA w)) ob w
      else (ob, w))"

text \<open>
  A \<open>for(const o of LIST)\<close> loop whose body mutates the element and the globals: the
  elements are visited in order, each exactly once.
\<close>

fun forEach :: "('a \<Rightarrow> 's \<Rightarrow> 'a \<times> 's) \<Rightarrow> 'a list \<Rightarrow> 's \<Rightarrow> 'a list \<times> 's" where
  "forEach body [] w = ([], w)"
| "forEach body (x # xs) w =
     (case body x w of (x1, w1) \<Rightarrow>
      case forEach body xs w1 of (xs1, w2) \<Rightarrow> (x1 # xs1, w2))"

section \<open>Wave\<close>

definition Wave_update :: "World \<Rightarrow> World" where
  "Wave_update w =
     (let wv = WAVE w;
          wv1 = wv\<lparr>wave_y := wave_y wv - WAVE_SPEED * timeSpeed w\<rparr>;
          wv2 = (if playerState (PLAYER w) \<noteq> Aiming
                 then wv1\<lparr>wave_y := min (wave_y wv1)
                                        (rect_bottom (boundingRectangle (CAMERA w)) + 100)\<rparr>
                 else wv1)
      in w\<lparr>WAVE := wv2\<lparr>bounds := (bounds wv2)\<lparr>rect_y := wave_y wv2\<rparr>\<rparr>\<rparr>)"

definition Wave_isColliding :: "Wave \<Rightarrow> Victor \<Rightarrow> bool" where
  "Wave_isColliding wv point = rect_contains (bounds wv) (vx point) (vy point)"

definition Wave_reset :: "Wave \<Rightarrow> Wave" where
  "Wave_reset wv = wv\<lparr>wave_x := 0, wave_y := vy CAMERA_POSITION_DEFAULT + 300\<rparr>"

section \<open>Best height\<close>

definition saveHighestsDeath :: "int \<Rightarrow> World \<Rightarrow> World" where
  "saveHighestsDeath height w =
     (let w1 = w\<lparr>highestDeathHeight := height\<rparr>
      in w1\<lparr>localStorage := localStorage w1 @ [highestDeathHeight w1]\<rparr>)"

definition recordDeathHeight :: "int \<Rightarrow> World \<Rightarrow> World" where
  "recordDeathHeight newHeight w =
     (let w1 = w\<lparr>lastDeathHeight := newHeight\<rparr>
      in if newHeight > highestDeathHeight w1 then saveHighestsDeath newHeight w1 else w1)"

section \<open>Scenes\<close>

definition switchToScene :: "SCENE_ID \<Rightarrow> World \<Rightarrow> World" where
  "switchToScene sceneID w = w\<lparr>currentScene := sceneID\<rparr>"

definition resetMenu :: "World \<Rightarrow> World" where
  "resetMenu w =
     w\<lparr>CAMERA := (CAMERA w)\<lparr>zoom := CAMERA_ZOOM_DEFAULT, position := CAMERA_POSITION_DEFAULT\<rparr>\<rparr>"

definition transitionToMenu :: "World \<Rightarrow> World" where
  "transitionToMenu w =
     (let w1 = resetMenu w;
          cam = CAMERA w1;
          w2 = w1\<lparr>CAMERA := cam\<lparr>position :=
                  Victor (vx (position cam)) (vy CAMERA_POSITION_DEFAULT + MENU_TRANSITION_HEIGHT)\<rparr>\<rparr>
      in switchToScene SCENE_Menu w2)"

section \<open>Player\<close>

definition Player_isColliding :: "Player \<Rightarrow> Obstacle \<Rightarrow> bool" where
  "Player_isColliding p other =
     isColliding (vectorPosition p) (colliderRadius p)
       (vectorPosition other) (colliderRadius other)"

definition setFlingAmount :: "int \<Rightarrow> Player \<Rightarrow> Player" where
  "setFlingAmount amount p =
     (let amount1 = (if amount < 0 then 0 else amount)
      in p\<lparr>flings := amount1, aimingNumberText := amount1\<rparr>)"

definition Player_reset :: "Player \<Rightarrow> Player" where
  "Player_reset p =
     (setFlingAmount STARTING_FLINGS
        (p\<lparr>playerState := Tutorial, vectorPosition := CAMERA_POSITION_DEFAULT,
           velocity := Victor 0 0\<rparr>))
       \<lparr>flingForce := Victor 0 0\<rparr>"

definition bounce :: "real \<Rightarrow> World \<Rightarrow> World" where
  "bounce bound w =
     (let p = PLAYER w;
          p1 = p\<lparr>vectorPosition := Victor bound (vy (vectorPosition p))\<rparr>;
          p2 = p1\<lparr>velocity := Victor (vx (velocity p1) * - 1) (vy (velocity p1))\<rparr>
      in playSound SFX_Back (w\<lparr>PLAYER := p2\<rparr>))"

subsection \<open>Aiming\<close>

definition onAim :: "World \<Rightarrow> World" where
  "onAim w =
     (if playerState (PLAYER w) = Dead then w
      else let w1 = playSound SFX_Aim w;
               w2 = w1\<lparr>targetGameSpeed := 0.02\<rparr>;
               w3 = w2\<lparr>PLAYER := (PLAYER w2)\<lparr>aimingIndicatorVisible := True\<rparr>\<rparr>
           in w3\<lparr>PLAYER := (PLAYER w3)\<lparr>playerState := Aiming\<rparr>\<rparr>)"

definition aimingIndicatorList_length :: nat where
  "aimingIndicatorList_length = (AIMING_BALLS_AMOUNT div 2) + 1 + (AIMING_BALLS_AMOUNT div 2)"

text \<open>
  \<open>updateAimingIndicator()\<close> places every indicator and returns whether the fling would
  be invalid; the styling of the indicators is drawing and left out.
\<close>

definition updateAimingIndicator :: "Player \<Rightarrow> bool \<times> Player" where
  "updateAimingIndicator p =
     (let aimingVector = multiplyScalar (flingForce p) 0.7;
          p1 = fold (\<lambda>i q.
                 let lerpAmount = INV_TOTAL_AIM_INDICATORS * (real i + 1);
                     lerpPosition = lerp2D (Victor 0 0) aimingVector lerpAmount
                 in q\<lparr>aimingIndicatorList := (aimingIndicatorList q)(i := lerpPosition)\<rparr>)
               [0..<aimingIndicatorList_length] p;
          isInvalid = (lengthSq (flingForce p1) < FLING_FORCE_MIN \<or> flings p1 = 0)
      in (isInvalid, p1))"

text \<open>
  \<open>whenAim()\<close>: after the indicators are placed, the source only turns and stretches
  the drawn square, which is left out.
\<close>

definition whenAim :: "World \<Rightarrow> World" where
  "whenAim w =
     (let p = PLAYER w;
          p1 = p\<lparr>flingForce := subtract (mouseDownCanvasPosition w) (mouseCanvasPosition w)\<rparr>;
          cam = easeTo
                  (add (aimingIndicatorList p1 (aimingIndicatorList_length - 1))
                       (vectorPosition p1))
                  CAMERA_ZOOM_AIMING CAMERA_AIMING_EASING_FACTOR (CAMERA w)
      in w\<lparr>PLAYER := snd (updateAimingIndicator p1), CAMERA := cam\<rparr>)"

definition exitAiming :: "World \<Rightarrow> World" where
  "exitAiming w =
     (w\<lparr>PLAYER := (PLAYER w)\<lparr>aimingIndicatorVisible := False\<rparr>\<rparr>)
       \<lparr>currentGameSpeed := 0.5, targetGameSpeed := 1\<rparr>"

subsection \<open>Alive and idle\<close>

text \<open>The bodies of the two loops of \<open>checkCollisions()\<close>, then the method.\<close>

definition checkCollisions_orb :: "Obstacle \<Rightarrow> World \<Rightarrow> Obstacle \<times> World" where
  "checkCollisions_orb orb w =
     (if Player_isColliding (PLAYER w) orb
      then let p = PLAYER w;
               p1 = p\<lparr>velocity := Victor (- vx (velocity p))
                                          (- \<bar>vy (velocity p)\<bar> * ORB_BOOST_MULTIPLIER)\<rparr>;
               p2 = setFlingAmount (flings p1 + 1) p1
           in Orb_destroy (nextCameraBound (CAMERA w)) orb (w\<lparr>PLAYER := p2\<rparr>)
      else (orb, w))"

definition checkCollisions_spike :: "Obstacle \<Rightarrow> World \<Rightarrow> Obstacle \<times> World" where
  "checkCollisions_spike spike w =
     (if Player_isColliding (PLAYER w) spike
      then let p = PLAYER w;
               p1 = p\<lparr>velocity := multiplyScalar (velocity p) (- 0.5)\<rparr>;
               p2 = setFlingAmount (flings p1 - 1) p1
           in Spike_destroy (nextCameraBound (CAMERA w)) spike (w\<lparr>PLAYER := p2\<rparr>)
      else (spike, w))"

definition checkCollisions :: "World \<Rightarrow> World" where
  "checkCollisions w =
     (case forEach checkCollisions_orb (ORBS w) w of (orbs, w1) \<Rightarrow>
      case forEach checkCollisions_spike (SPIKES w1) (w1\<lparr>ORBS := orbs\<rparr>) of (spikes, w2) \<Rightarrow>
        w2\<lparr>SPIKES := spikes\<rparr>)"

definition onFling :: "World \<Rightarrow> World" where
  "onFling w =
     (if playerState (PLAYER w) \<noteq> Aiming then w
      else let w1 = exitAiming w;
               w2 = w1\<lparr>PLAYER := (PLAYER w1)\<lparr>playerState := Idle\<rparr>\<rparr>
           in if lengthSq (flingForce (PLAYER w2)) < FLING_FORCE_MIN \<or> flings (PLAYER w2) = 0
              then playSound SFX_Spike w2
              else let w3 = w2\<lparr>PLAYER := setFlingAmount (flings (PLAYER w2) - 1) (PLAYER w2)\<rparr>;
                       w4 = playSound SFX_Fling w3
                   in w4\<lparr>PLAYER := (PLAYER w4)\<lparr>velocity :=
                                      multiplyScalar (flingForce (PLAYER w4)) 5\<rparr>\<rparr>)"

subsection \<open>Death and tutorial\<close>

definition onDeath :: "World \<Rightarrow> World" where
  "onDeath w =
     (let w1 = w\<lparr>PLAYER := (PLAYER w)\<lparr>playerState := Dead\<rparr>\<rparr>;
          w2 = exitAiming w1;
          w3 = w2\<lparr>PLAYER := (PLAYER w2)\<lparr>velocity := Victor 0 (vy (velocity (PLAYER w2)))\<rparr>\<rparr>;
          w4 = playSound SFX_Death w3
      in recordDeathHeight (\<lceil>vy (vectorPosition (PLAYER w4)) * - 0.1\<rceil> + 100) w4)"

definition whenAlive :: "World \<Rightarrow> World" where
  "whenAlive w =
     (if Wave_isColliding (WAVE w) (vectorPosition (PLAYER w)) then onDeath w
      else checkCollisions w)"

definition whenDead :: "World \<Rightarrow> World" where
  "whenDead w =
     (if wave_y (WAVE w) < rect_top (boundingRectangle (CAMERA w)) then transitionToMenu w
      else w)"

definition whenTutorial :: "World \<Rightarrow> World" where
  "whenTutorial w = (w\<lparr>targetGameSpeed := 0\<rparr>)\<lparr>currentGameSpeed := 0\<rparr>"

subsection \<open>The player's frame\<close>

text \<open>
  \<open>Player.update()\<close>. It first turns and stretches the drawn square (left out), then
  runs the \<open>switch\<close> on the state, adds gravity, bounces off the walls and calls the
  integration step of \<open>PhysicsObject\<close>.
\<close>

definition Player_fsm :: "World \<Rightarrow> World" where
  "Player_fsm w =
     (case playerState (PLAYER w) of
        Dead \<Rightarrow> whenDead w
      | Idle \<Rightarrow> whenAlive w
      | Aiming \<Rightarrow> whenAim (whenAlive w)
      | Tutorial \<Rightarrow> whenTutorial w)"

definition Player_update :: "World \<Rightarrow> World" where
  "Player_update w =
     (let w1 = Player_fsm w;
          w2 = w1\<lparr>PLAYER := (PLAYER w1)\<lparr>momentOfAcceleration :=
                  add (momentOfAcceleration (PLAYER w1))
                      (multiplyScalar GRAVITY (timeSpeed w1))\<rparr>\<rparr>;
          w3 = (if vx (vectorPosition (PLAYER w2)) < rect_left (boundingRectangle (CAMERA w2))
                then bounce (rect_left (boundingRectangle (CAMERA w2))) w2
                else if vx (vectorPosition (PLAYER w2)) > rect_right (boundingRectangle (CAMERA w2))
                then bounce (rect_right (boundingRectangle (CAMERA w2))) w2
                else w2)
      in w3\<lparr>PLAYER := PhysicsObject_update (timeSpeed w3) (PLAYER w3)\<rparr>)"

section \<open>The game loop and the input events\<close>

definition updatePhysicsManager :: "real \<Rightarrow> World \<Rightarrow> World" where
  "updatePhysicsManager elapsedMS w =
     (let w1 = w\<lparr>currentGameSpeed :=
                  lerp (currentGameSpeed w) (targetGameSpeed w) TIME_EASING_FACTOR\<rparr>
      in w1\<lparr>timeSpeed := currentGameSpeed w1 * elapsedMS * 0.001\<rparr>)"

text \<open>
  \<open>updateObjects()\<close> walks \<open>OBJECTS\<close> in the order of construction: the orbs, the
  spikes, the player; then the wave.
\<close>

definition updateObjects :: "World \<Rightarrow> World" where
  "updateObjects w =
     (case forEach (Obstacle_update Orb_respawn) (ORBS w) w of (orbs, w1) \<Rightarrow>
      case forEach (Obstacle_update Spike_respawn) (SPIKES w1) (w1\<lparr>ORBS := orbs\<rparr>)
        of (spikes, w2) \<Rightarrow>
          Wave_update (Player_update (w2\<lparr>SPIKES := spikes\<rparr>)))"

definition updateInputManager :: "World \<Rightarrow> World" where
  "updateInputManager w =
     w\<lparr>mouseWorldPosition := canvasToWorld (CAMERA w) (mouseCanvasPosition w)\<rparr>"

definition updateGame :: "real \<Rightarrow> World \<Rightarrow> World" where
  "updateGame elapsedMS w =
     (let easeFactor = (if lengthSq (velocity (PLAYER w)) > 6000000
                        then CAMERA_SPEEDING_EASING_FACTOR else CAMERA_EASING_FACTOR);
          w1 = w\<lparr>CAMERA := easeTo (vectorPosition (PLAYER w)) CAMERA_ZOOM_DEFAULT easeFactor
                              (CAMERA w)\<rparr>;
          w2 = w1\<lparr>CAMERA := Camera_update (CAMERA w1)\<rparr>;
          w3 = updateInputManager w2;
          w4 = updatePhysicsManager elapsedMS w3
      in updateObjects w4)"

definition updateMenu :: "World \<Rightarrow> World" where
  "updateMenu w =
     (let w1 = w\<lparr>CAMERA := easeTo CAMERA_POSITION_DEFAULT CAMERA_ZOOM_DEFAULT
                              CAMERA_AIMING_EASING_FACTOR (CAMERA w)\<rparr>;
          w2 = w1\<lparr>CAMERA := Camera_update (CAMERA w1)\<rparr>
      in updateInputManager w2)"

definition update :: "real \<Rightarrow> World \<Rightarrow> World" where
  "update elapsedMS w =
     (case currentScene w of
        SCENE_Menu \<Rightarrow> updateMenu w
      | SCENE_Game \<Rightarrow> updateGame elapsedMS w)"

subsection \<open>Starting a game\<close>

text \<open>
  \<open>resetObjects(bounds)\<close> respawns every obstacle until it keeps its distance from the
  player. The \<open>do ... while\<close> loop has no bound on its rounds; where it runs forever the
  result is \<open>None\<close>. \<open>OBSTACLES\<close> lists the orbs, then the spikes.
\<close>

partial_function (option) respawnApart ::
  "(Rectangle \<Rightarrow> Obstacle \<Rightarrow> World \<Rightarrow> Obstacle \<times> World) \<Rightarrow>
   Rectangle \<Rightarrow> real \<Rightarrow> Obstacle \<Rightarrow> World \<Rightarrow> (Obstacle \<times> World) option" where
  [code]: "respawnApart respawn bnds personalSpace ob w =
     (case respawn bnds ob w of (ob1, w1) \<Rightarrow>
        if isColliding (vectorPosition ob1) (colliderRadius ob1)
             (vectorPosition (PLAYER w1)) personalSpace
        then respawnApart respawn bnds personalSpace ob1 w1
        else Some (ob1, w1))"

fun forEach_option ::
  "('a \<Rightarrow> 's \<Rightarrow> ('a \<times> 's) option) \<Rightarrow> 'a list \<Rightarrow> 's \<Rightarrow> ('a list \<times> 's) option" where
  "forEach_option body [] w = Some ([], w)"
| "forEach_option body (x # xs) w =
     (case body x w of
        None \<Rightarrow> None
      | Some (x1, w1) \<Rightarrow>
          (case forEach_option body xs w1 of
             None \<Rightarrow> None
           | Some (xs1, w2) \<Rightarrow> Some (x1 # xs1, w2)))"

definition resetObjects :: "Rectangle \<Rightarrow> World \<Rightarrow> World option" where
  "resetObjects bnds w =
     (let personalSpace = colliderRadius (PLAYER w) * 10
      in case forEach_option (respawnApart Orb_respawn bnds personalSpace) (ORBS w) w of
           None \<Rightarrow> None
         | Some (orbs, w1) \<Rightarrow>
             (case forEach_option (respawnApart Spike_respawn bnds personalSpace)
                     (SPIKES w1) (w1\<lparr>ORBS := orbs\<rparr>) of
                None \<Rightarrow> None
              | Some (spikes, w2) \<Rightarrow> Some (w2\<lparr>SPIKES := spikes\<rparr>)))"

definition resetGame :: "World \<Rightarrow> World option" where
  "resetGame w =
     (let w1 = w\<lparr>PLAYER := Player_reset (PLAYER w)\<rparr>;
          w2 = w1\<lparr>CAMERA := (CAMERA w1)\<lparr>zoom := CAMERA_ZOOM_DEFAULT,
                                          position := CAMERA_POSITION_DEFAULT\<rparr>\<rparr>;
          w3 = w2\<lparr>CAMERA := computeMatrix (CAMERA w2)\<rparr>
      in case resetObjects (boundingRectangle (CAMERA w3)) w3 of
           None \<Rightarrow> None
         | Some w4 \<Rightarrow> Some (w4\<lparr>WAVE := Wave_reset (WAVE w4)\<rparr>))"

definition transitionToGame :: "World \<Rightarrow> World option" where
  "transitionToGame w =
     (case resetGame w of None \<Rightarrow> None | Some w1 \<Rightarrow> Some (switchToScene SCENE_Game w1))"

subsection \<open>Events\<close>

text \<open>
  What the host delivers: a frame of the ticker (with \<open>APP.ticker.elapsedMS\<close>), the three
  pointer handlers of \<open>initializeInputManager\<close> (with \<open>clientX\<close> and \<open>clientY\<close>), and
  a click on the menu's Play button, which calls \<open>transitionToGame\<close> and plays a sound.
\<close>

datatype Event =
    Frame real
  | PointerMove real real
  | PointerDown real real
  | PointerUp real real
  | PlayClicked

definition onpointermove :: "real \<Rightarrow> real \<Rightarrow> World \<Rightarrow> World" where
  "onpointermove clientX clientY w =
     (let w1 = w\<lparr>mouseClientPosition := Victor clientX clientY\<rparr>
      in w1\<lparr>mouseCanvasPosition := subtract (mouseClientPosition w1) (APP_CLIENT_POSITION w1)\<rparr>)"

definition onpointerdown :: "real \<Rightarrow> real \<Rightarrow> World \<Rightarrow> World" where
  "onpointerdown clientX clientY w =
     (let w1 = w\<lparr>mouseDown := True\<rparr>;
          w2 = w1\<lparr>mouseDownCanvasPosition :=
                  subtract (Victor clientX clientY) (APP_CLIENT_POSITION w1)\<rparr>
      in onAim w2)"

definition onpointerup :: "real \<Rightarrow> real \<Rightarrow> World \<Rightarrow> World" where
  "onpointerup clientX clientY w =
     (let w1 = w\<lparr>mouseDown := False\<rparr>;
          w2 = w1\<lparr>mouseUpCanvasPosition :=
                  subtract (Victor clientX clientY) (APP_CLIENT_POSITION w1)\<rparr>
      in onFling w2)"

fun step :: "Event \<Rightarrow> World \<Rightarrow> World option" where
  "step (Frame elapsedMS) w = Some (update elapsedMS w)"
| "step (PointerMove cx cy) w = Some (onpointermove cx cy w)"
| "step (PointerDown cx cy) w = Some (onpointerdown cx cy w)"
| "step (PointerUp cx cy) w = Some (onpointerup cx cy w)"
| "step PlayClicked w =
     (case transitionToGame w of None \<Rightarrow> None | Some w1 \<Rightarrow> Some (playSound SFX_Select w1))"

fun run :: "Event list \<Rightarrow> World \<Rightarrow> World option" where
  "run [] w = Some w"
| "run (e # es) w = (case step e w of None \<Rightarrow> None | Some w1 \<Rightarrow> run es w1)"

subsection \<open>The world when the game loop starts\<close>

text \<open>
  The objects as their constructors leave them (\<open>initializeOjects(10, 7)\<close>), the globals
  at their initial values, the camera as \<open>resetMenu\<close> sets it in \<open>initializeMenu\<close>.
  The page position of the canvas and the random source are parameters; nothing is
  stored under the key of the highest death yet.
\<close>

definition newOrb :: Obstacle where
  "newOrb = \<lparr>baseColliderRadius = 20 * 2, colliderRadius = 20 * 2 * 1,
     vectorPosition = Victor 0 0, velocity = Victor 0 0,
     momentOfAcceleration = Victor 0 0, pixiScale = 1, rotation = 0\<rparr>"

definition newSpike :: Obstacle where
  "newSpike = \<lparr>baseColliderRadius = 75 * 0.3, colliderRadius = 75 * 0.3 * 1,
     vectorPosition = Victor 0 0, velocity = Victor 0 0,
     momentOfAcceleration = Victor 0 0, pixiScale = 1, rotation = 0\<rparr>"

definition newPlayer :: Player where
  "newPlayer = \<lparr>baseColliderRadius = 20 * 0.5, colliderRadius = 20 * 0.5 * 1,
     vectorPosition = CAMERA_POSITION_DEFAULT, velocity = Victor 0 0,
     momentOfAcceleration = Victor 0 0, pixiScale = 1,
     playerState = Dead, flings = 0, flingForce = Victor 0 0,
     aimingIndicatorVisible = False, aimingIndicatorList = (\<lambda>i. Victor 0 0),
     aimingNumberText = 0\<rparr>"

definition newWave :: Wave where
  "newWave = \<lparr>wave_x = 0, wave_y = vy CAMERA_POSITION_DEFAULT + 300,
     bounds = \<lparr>rect_x = 0, rect_y = vy CAMERA_POSITION_DEFAULT + 300,
               rect_width = vx APP_SIZE, rect_height = vy APP_SIZE * 2\<rparr>\<rparr>"

definition newCamera :: Camera where
  "newCamera = \<lparr>position = Victor 0 0, zoom = 1, matrix = Matrix_identity,
     boundingRectangle = \<lparr>rect_x = 0, rect_y = 0, rect_width = 0, rect_height = 0\<rparr>,
     nextCameraBound = \<lparr>rect_x = 0, rect_y = 0, rect_width = 0, rect_height = 0\<rparr>,
     xBounds = Victor 0 (vx APP_SIZE)\<rparr>"

definition startWorld :: "Victor \<Rightarrow> (nat \<Rightarrow> real) \<Rightarrow> World" where
  "startWorld clientPosition rnd =
     resetMenu
       \<lparr>PLAYER = newPlayer, WAVE = newWave, CAMERA = newCamera,
        ORBS = replicate 10 newOrb, SPIKES = replicate 7 newSpike,
        currentGameSpeed = 1, targetGameSpeed = 1, timeSpeed = 1,
        APP_CLIENT_POSITION = clientPosition,
        mouseClientPosition = Victor 0 0, mouseCanvasPosition = Victor 0 0,
        mouseWorldPosition = Victor 0 0, mouseDown = False,
        mouseDownCanvasPosition = Victor 0 0, mouseUpCanvasPosition = Victor 0 0,
        lastDeathHeight = 0, highestDeathHeight = 0, localStorage = [],
        currentScene = SCENE_Menu, played = [],
        randomSource = rnd, randomCount = 0\<rparr>"

subsection \<open>Sample objects and worlds\<close>

text \<open>
  Concrete inputs on which the theorems below are exercised: a player in flight, an orb
  carrying the same motion, two cameras, and worlds of the game scene built from the
  starting world (a camera that has been computed, two orbs, one of them on the player,
  and a spike far away).
\<close>

definition flyingPlayer :: Player where
  "flyingPlayer = newPlayer\<lparr>playerState := Idle, flings := 5, aimingNumberText := 5,
     velocity := Victor 10 (- 50)\<rparr>"

definition flyingOrb :: Obstacle where
  "flyingOrb = newOrb\<lparr>vectorPosition := CAMERA_POSITION_DEFAULT,
     velocity := Victor 10 (- 50), momentOfAcceleration := Victor 0 100\<rparr>"

definition playingWorld :: World where
  "playingWorld =
     (let w = startWorld (Victor 0 0) (\<lambda>i. 1 / 2)
      in w\<lparr>currentScene := SCENE_Game, PLAYER := flyingPlayer,
           CAMERA := computeMatrix (CAMERA w),
           ORBS := [newOrb\<lparr>vectorPosition := Victor 260 10\<rparr>, newOrb],
           SPIKES := [newSpike\<lparr>vectorPosition := Victor 0 (- 300)\<rparr>]\<rparr>)"

definition aimingWorld :: World where
  "aimingWorld =
     playingWorld\<lparr>PLAYER := flyingPlayer\<lparr>playerState := Aiming, velocity := Victor 0 0,
         aimingIndicatorVisible := True, flingForce := Victor 0 60\<rparr>,
       targetGameSpeed := 0.02,
       mouseDown := True, mouseDownCanvasPosition := Victor 100 100,
       mouseClientPosition := Victor 100 40, mouseCanvasPosition := Victor 100 40\<rparr>"

definition boundaryWorld :: World where
  "boundaryWorld =
     aimingWorld\<lparr>PLAYER := (PLAYER aimingWorld)\<lparr>flingForce := Victor (sqrt 3500) 0\<rparr>\<rparr>"



definition lowWaveWorld :: World where
  "lowWaveWorld = playingWorld\<lparr>WAVE := newWave\<lparr>wave_y := 1000\<rparr>\<rparr>"

definition spikedWorld :: World where
  "spikedWorld = playingWorld\<lparr>PLAYER := flyingPlayer\<lparr>flings := 1, aimingNumberText := 1\<rparr>\<rparr>"

definition tutorialWorld :: World where
  "tutorialWorld =
     playingWorld\<lparr>PLAYER := Player_reset flyingPlayer, randomSource := (\<lambda>i. 0)\<rparr>"

definition clickWorld :: World where
  "clickWorld = spikedWorld\<lparr>randomSource := (\<lambda>i. 0)\<rparr>"

definition deadlyWorld :: World where
  "deadlyWorld =
     playingWorld\<lparr>PLAYER := flyingPlayer\<lparr>vectorPosition := Victor 250 (- 1234.5)\<rparr>,
       highestDeathHeight := 150, localStorage := [150]\<rparr>"

definition pressedWorld :: World where
  "pressedWorld =
     playingWorld\<lparr>PLAYER := flyingPlayer\<lparr>playerState := Aiming, velocity := Victor 0 0,
         aimingIndicatorVisible := True\<rparr>,
       played := [SFX_Aim], targetGameSpeed := 0.02,
       mouseDown := True, mouseDownCanvasPosition := Victor 100 100,
       mouseClientPosition := Victor 100 40, mouseCanvasPosition := Victor 100 40\<rparr>"

definition slowTutorialWorld :: World where
  "slowTutorialWorld = tutorialWorld\<lparr>timeSpeed := 1 / 2\<rparr>"

section \<open>The integration step\<close>

lemmas vec_defs = add_def subtract_def multiplyScalar_def lengthSq_def distanceSq_def
  lerp_def lerp2D_def isColliding_def

lemmas const_defs = APP_SIZE_def CAMERA_POSITION_DEFAULT_def CAMERA_ZOOM_DEFAULT_def
  CAMERA_ZOOM_AIMING_def CAMERA_EASING_FACTOR_def CAMERA_AIMING_EASING_FACTOR_def
  CAMERA_SPEEDING_EASING_FACTOR_def MENU_TRANSITION_HEIGHT_def FRICTION_def GRAVITY_def
  TIME_EASING_FACTOR_def WAVE_SPEED_def ORB_BOOST_MULTIPLIER_def FLING_FORCE_MIN_def
  STARTING_FLINGS_def AIMING_BALLS_AMOUNT_def INV_TOTAL_AIM_INDICATORS_def Math_PI_def
  TWO_PI_def

lemmas rect_defs = rect_left_def rect_right_def rect_top_def rect_bottom_def

lemmas start_defs = newOrb_def newSpike_def newPlayer_def newWave_def newCamera_def
  startWorld_def resetMenu_def

lemmas world_defs = flyingPlayer_def flyingOrb_def playingWorld_def aimingWorld_def
  boundaryWorld_def lowWaveWorld_def spikedWorld_def tutorialWorld_def slowTutorialWorld_def
  clickWorld_def deadlyWorld_def pressedWorld_def

lemma PhysicsObject_update_fields:
  "velocity (PhysicsObject_update ts p) =
     Victor ((vx (velocity p) + vx (momentOfAcceleration p) * ts) * (1 - 0.9 * ts))
            ((vy (velocity p) + vy (momentOfAcceleration p) * ts) * (1 - 0.9 * ts))"
  "vectorPosition (PhysicsObject_update ts p) =
     Victor (vx (vectorPosition p) + (vx (velocity p) + vx (momentOfAcceleration p) * ts) * ts)
            (vy (vectorPosition p) + (vy (velocity p) + vy (momentOfAcceleration p) * ts) * ts)"
  "momentOfAcceleration (PhysicsObject_update ts p) = Victor 0 0"
  by (simp_all add: PhysicsObject_update_def Let_def add_def subtract_def multiplyScalar_def
      FRICTION_def algebra_simps)

lemma integrate_same:
  "vectorPosition q = vectorPosition p \<Longrightarrow> velocity q = velocity p \<Longrightarrow>
   momentOfAcceleration q = momentOfAcceleration p \<Longrightarrow>
   vectorPosition (integrate tss q) = vectorPosition (integrate tss p) \<and>
   velocity (integrate tss q) = velocity (integrate tss p)"
proof (induction tss arbitrary: p q)
  case Nil
  then show ?case by simp
next
  case (Cons ts tss)
  show ?case
    unfolding integrate.simps
    by (rule Cons.IH) (simp_all add: PhysicsObject_update_fields Cons.prems)
qed

text \<open>
  C5. One call of \<open>PhysicsObject.update()\<close> performs, in this order: the velocity gains
  the pending acceleration times \<open>timeSpeed\<close>; the position gains the new velocity times
  \<open>timeSpeed\<close>; the velocity loses itself times \<open>FRICTION * timeSpeed\<close>, computed from the
  velocity already updated; the pending acceleration becomes zero. Position and velocity
  after any sequence of \<open>timeSpeed\<close> values depend on the initial position, velocity and
  pending acceleration only: two objects that agree on these, whatever else they carry,
  agree on them after the run.
\<close>

theorem PhysicsObject_update_integration:
  fixes p :: "'a PhysicsObject_scheme" and q :: "'b PhysicsObject_scheme"
  shows
  "PhysicsObject_update ts p =
     p\<lparr>velocity :=
         subtract (add (velocity p) (multiplyScalar (momentOfAcceleration p) ts))
           (multiplyScalar (add (velocity p) (multiplyScalar (momentOfAcceleration p) ts))
              (FRICTION * ts)),
       vectorPosition :=
         add (vectorPosition p)
           (multiplyScalar (add (velocity p) (multiplyScalar (momentOfAcceleration p) ts)) ts),
       momentOfAcceleration := Victor 0 0\<rparr>
   \<and> (vectorPosition q = vectorPosition p \<and> velocity q = velocity p \<and>
      momentOfAcceleration q = momentOfAcceleration p \<longrightarrow>
      vectorPosition (integrate tss q) = vectorPosition (integrate tss p) \<and>
      velocity (integrate tss q) = velocity (integrate tss p))"
  using integrate_same[of q p tss]
  by (simp add: PhysicsObject_update_def Let_def)

theorem PhysicsObject_update_integration_witness:
  "PhysicsObject_update (1 / 2) (flyingPlayer\<lparr>momentOfAcceleration := Victor 0 100\<rparr>) =
     flyingPlayer\<lparr>velocity := Victor (11 / 2) 0, vectorPosition := Victor 255 0,
       momentOfAcceleration := Victor 0 0\<rparr>
   \<and> vectorPosition (integrate [1 / 2, 1 / 4] flyingOrb)
       = vectorPosition (integrate [1 / 2, 1 / 4]
           (flyingPlayer\<lparr>momentOfAcceleration := Victor 0 100\<rparr>))
   \<and> velocity (integrate [1 / 2, 1 / 4] flyingOrb)
       = velocity (integrate [1 / 2, 1 / 4]
           (flyingPlayer\<lparr>momentOfAcceleration := Victor 0 100\<rparr>))"
  using PhysicsObject_update_integration[of "1 / 2"
      "flyingPlayer\<lparr>momentOfAcceleration := Victor 0 100\<rparr>" flyingOrb "[1 / 2, 1 / 4]"]
  by (simp add: flyingPlayer_def flyingOrb_def start_defs vec_defs const_defs)

section \<open>What the loops over the obstacles leave unchanged\<close>

lemma Obstacle_respawn_eq:
  "Obstacle_respawn b lo hi ob w =
     (setScale (randomSource w (Suc (Suc (randomCount w))) * (hi - lo) + lo)
        (ob\<lparr>vectorPosition :=
           Victor (randomSource w (randomCount w) * (rect_right b - rect_x b) + rect_x b)
                  (randomSource w (Suc (randomCount w)) * (rect_bottom b - rect_y b) + rect_y b)\<rparr>),
      w\<lparr>randomCount := Suc (Suc (Suc (randomCount w)))\<rparr>)"
  by (simp add: Obstacle_respawn_def randomRange2D_def randomRange_def random_max_def
      Math_random_def)

lemma snd_Orb_respawn: "snd (Orb_respawn b ob w) = w\<lparr>randomCount := randomCount w + 3\<rparr>"
  by (simp add: Orb_respawn_def Obstacle_respawn_eq)

lemma snd_Spike_respawn: "snd (Spike_respawn b ob w) = w\<lparr>randomCount := randomCount w + 4\<rparr>"
  by (simp add: Spike_respawn_def Obstacle_respawn_eq random_max_def Math_random_def)

lemma snd_Orb_destroy:
  "snd (Orb_destroy b ob w) = w\<lparr>randomCount := randomCount w + 3, played := played w @ [SFX_Orb]\<rparr>"
  by (simp add: Orb_destroy_def Obstacle_destroy_def Orb_respawn_def Obstacle_respawn_eq playSound_def)

lemma snd_Spike_destroy:
  "snd (Spike_destroy b ob w) =
     w\<lparr>randomCount := randomCount w + 4, played := played w @ [SFX_Orb, SFX_Spike]\<rparr>"
  by (simp add: Spike_destroy_def Obstacle_destroy_def Spike_respawn_def Obstacle_respawn_eq
      random_max_def Math_random_def playSound_def)

lemma forEach_invariant:
  assumes "\<And>x w. P w \<Longrightarrow> P (snd (body x w))" and "P w"
  shows "P (snd (forEach body xs w))"
  using assms(2)
proof (induction xs arbitrary: w)
  case Nil
  then show ?case by simp
next
  case (Cons x xs)
  have "P (snd (body x w))" using Cons.prems assms(1) by blast
  then have "P (snd (forEach body xs (snd (body x w))))" by (rule Cons.IH)
  then show ?case by (simp add: split_beta)
qed

lemma snd_checkCollisions_orb:
  "snd (checkCollisions_orb orb w) =
     (if Player_isColliding (PLAYER w) orb
      then w\<lparr>PLAYER := (PLAYER w)\<lparr>
                velocity := Victor (- vx (velocity (PLAYER w)))
                                   (- \<bar>vy (velocity (PLAYER w))\<bar> * ORB_BOOST_MULTIPLIER),
                flings := (if flings (PLAYER w) + 1 < 0 then 0 else flings (PLAYER w) + 1),
                aimingNumberText := (if flings (PLAYER w) + 1 < 0 then 0 else flings (PLAYER w) + 1)\<rparr>,
             randomCount := randomCount w + 3, played := played w @ [SFX_Orb]\<rparr>
      else w)"
  by (simp add: checkCollisions_orb_def Let_def setFlingAmount_def snd_Orb_destroy)

lemma snd_checkCollisions_spike:
  "snd (checkCollisions_spike spike w) =
     (if Player_isColliding (PLAYER w) spike
      then w\<lparr>PLAYER := (PLAYER w)\<lparr>
                velocity := multiplyScalar (velocity (PLAYER w)) (- 0.5),
                flings := (if flings (PLAYER w) - 1 < 0 then 0 else flings (PLAYER w) - 1),
                aimingNumberText := (if flings (PLAYER w) - 1 < 0 then 0 else flings (PLAYER w) - 1)\<rparr>,
             randomCount := randomCount w + 4, played := played w @ [SFX_Orb, SFX_Spike]\<rparr>
      else w)"
  by (simp add: checkCollisions_spike_def Let_def setFlingAmount_def snd_Spike_destroy)


lemma checkCollisions_orb_frame:
  assumes "\<And>w v n t c s. f (w\<lparr>PLAYER := (PLAYER w)\<lparr>velocity := v, flings := n,
              aimingNumberText := t\<rparr>, randomCount := c, played := s\<rparr>) = f w"
  shows "f (snd (checkCollisions_orb orb w)) = f w"
proof (cases "Player_isColliding (PLAYER w) orb")
  case True
  show ?thesis unfolding snd_checkCollisions_orb using True by (simp only: if_True assms)
next
  case False
  show ?thesis unfolding snd_checkCollisions_orb using False by (simp only: if_False)
qed

lemma checkCollisions_spike_frame:
  assumes "\<And>w v n t c s. f (w\<lparr>PLAYER := (PLAYER w)\<lparr>velocity := v, flings := n,
              aimingNumberText := t\<rparr>, randomCount := c, played := s\<rparr>) = f w"
  shows "f (snd (checkCollisions_spike spike w)) = f w"
proof (cases "Player_isColliding (PLAYER w) spike")
  case True
  show ?thesis unfolding snd_checkCollisions_spike using True by (simp only: if_True assms)
next
  case False
  show ?thesis unfolding snd_checkCollisions_spike using False by (simp only: if_False)
qed

lemma checkCollisions_frame:
  assumes "\<And>w v n t c s os ss. f (w\<lparr>PLAYER := (PLAYER w)\<lparr>velocity := v, flings := n,
              aimingNumberText := t\<rparr>, randomCount := c, played := s,
              ORBS := os, SPIKES := ss\<rparr>) = f w"
  shows "f (checkCollisions w) = f w"
proof -
  have hit: "f (w\<lparr>PLAYER := (PLAYER w)\<lparr>velocity := v, flings := n,
              aimingNumberText := t\<rparr>, randomCount := c, played := s\<rparr>) = f w" for w v n t c s
    using assms[where w = w and v = v and n = n and t = t and c = c and s = s
        and os = "ORBS w" and ss = "SPIKES w"] by simp
  have lists: "f (w\<lparr>ORBS := os, SPIKES := ss\<rparr>) = f w" for w os ss
    using assms[where w = w and v = "velocity (PLAYER w)" and n = "flings (PLAYER w)"
        and t = "aimingNumberText (PLAYER w)" and c = "randomCount w" and s = "played w"
        and os = os and ss = ss] by simp
  have orbs: "f (w1\<lparr>ORBS := os\<rparr>) = f w1" for w1 os
    using lists[where w = w1 and os = os and ss = "SPIKES w1"] by simp
  have spikes: "f (w1\<lparr>SPIKES := ss\<rparr>) = f w1" for w1 ss
    using lists[where w = w1 and os = "ORBS w1" and ss = ss] by simp
  define w1 where "w1 = snd (forEach checkCollisions_orb (ORBS w) w)"
  define os where "os = fst (forEach checkCollisions_orb (ORBS w) w)"
  define w2 where "w2 = snd (forEach checkCollisions_spike (SPIKES w1) (w1\<lparr>ORBS := os\<rparr>))"
  define ss where "ss = fst (forEach checkCollisions_spike (SPIKES w1) (w1\<lparr>ORBS := os\<rparr>))"
  have eq: "checkCollisions w = w2\<lparr>SPIKES := ss\<rparr>"
    by (simp add: checkCollisions_def split_beta w1_def os_def w2_def ss_def)
  have 1: "f w1 = f w" unfolding w1_def
    by (rule forEach_invariant[where P = "\<lambda>w'. f w' = f w"])
       (simp_all add: checkCollisions_orb_frame[of f, OF hit])
  have 2: "f w2 = f (w1\<lparr>ORBS := os\<rparr>)" unfolding w2_def
    by (rule forEach_invariant[where P = "\<lambda>w'. f w' = f (w1\<lparr>ORBS := os\<rparr>)"])
       (simp_all add: checkCollisions_spike_frame[of f, OF hit])
  show ?thesis using 1 2 by (simp add: eq orbs spikes)
qed

section \<open>The camera\<close>

lemma computeMatrix_fields:
  assumes "zoom cam \<noteq> 0"
  shows "boundingRectangle (computeMatrix cam) =
           \<lparr>rect_x = vx (position cam) - 250 / zoom cam,
            rect_y = vy (position cam) - 375 / zoom cam,
            rect_width = 500 / zoom cam, rect_height = 750 / zoom cam\<rparr>"
    and "position (computeMatrix cam) = position cam"
    and "zoom (computeMatrix cam) = zoom cam"
    and "xBounds (computeMatrix cam) = xBounds cam"
  using assms
  by (simp_all add: computeMatrix_def computeBoundingRectangle_def canvasToWorld_def
      Matrix_applyInverse_def Matrix_translate_def Matrix_scale_def Matrix_identity_def
      APP_SIZE_def Let_def field_simps)






section \<open>Death and release\<close>

text \<open>
  C8. \<open>onDeath()\<close> sets the state to \<open>Dead\<close>, leaves aiming (indicator hidden, game
  speed 0.5 heading for 1), zeroes the horizontal velocity and keeps the vertical one, plays
  the death sound, and records the height \<open>ceil(y * -0.1) + 100\<close> as the last death
  height. The height is written to the store, and becomes the best height, if and only if
  it exceeds the best height held so far.
\<close>

theorem onDeath_effect:
  "playerState (PLAYER (onDeath w)) = Dead
   \<and> velocity (PLAYER (onDeath w)) = Victor 0 (vy (velocity (PLAYER w)))
   \<and> aimingIndicatorVisible (PLAYER (onDeath w)) = False
   \<and> currentGameSpeed (onDeath w) = 0.5 \<and> targetGameSpeed (onDeath w) = 1
   \<and> played (onDeath w) = played w @ [SFX_Death]
   \<and> lastDeathHeight (onDeath w) = \<lceil>vy (vectorPosition (PLAYER w)) * - 0.1\<rceil> + 100
   \<and> localStorage (onDeath w) =
       (if \<lceil>vy (vectorPosition (PLAYER w)) * - 0.1\<rceil> + 100 > highestDeathHeight w
        then localStorage w @ [\<lceil>vy (vectorPosition (PLAYER w)) * - 0.1\<rceil> + 100]
        else localStorage w)
   \<and> highestDeathHeight (onDeath w) =
       (if \<lceil>vy (vectorPosition (PLAYER w)) * - 0.1\<rceil> + 100 > highestDeathHeight w
        then \<lceil>vy (vectorPosition (PLAYER w)) * - 0.1\<rceil> + 100
        else highestDeathHeight w)"
  by (simp add: onDeath_def exitAiming_def playSound_def recordDeathHeight_def
      saveHighestsDeath_def Let_def)

theorem onDeath_effect_witness:
  "vectorPosition (PLAYER deadlyWorld) = Victor 250 (- 1234.5)
   \<and> highestDeathHeight deadlyWorld = 150
   \<and> playerState (PLAYER (onDeath deadlyWorld)) = Dead
   \<and> velocity (PLAYER (onDeath deadlyWorld)) = Victor 0 (- 50)
   \<and> lastDeathHeight (onDeath deadlyWorld) = 224
   \<and> highestDeathHeight (onDeath deadlyWorld) = 224
   \<and> localStorage (onDeath deadlyWorld) = [150, 224]"
proof -
  have c: "\<lceil>(2469 :: real) / 20\<rceil> = 124" by (simp add: ceiling_unique)
  have d: "vectorPosition (PLAYER deadlyWorld) = Victor 250 (- 1234.5)"
    "highestDeathHeight deadlyWorld = 150" "localStorage deadlyWorld = [150]"
    "velocity (PLAYER deadlyWorld) = Victor 10 (- 50)"
    by (simp_all add: deadlyWorld_def flyingPlayer_def Let_def)
  show ?thesis using onDeath_effect[of deadlyWorld] by (simp add: d c)
qed

text \<open>
  C1, as the code has it. A release while \<open>Aiming\<close> always returns the state to \<open>Idle\<close>.
  It is cancelled (velocity and fling count unchanged, the invalid cue played) exactly when
  the squared length of \<open>flingForce\<close> is below \<open>FLING_FORCE_MIN\<close> or no fling is left.
  Otherwise, and so also at a squared length of exactly 3500, the fling count changes: it
  drops by exactly one when it was at least one, and the velocity becomes
  \<open>flingForce * 5\<close>.
\<close>

theorem onFling_cancel_or_fling:
  assumes "playerState (PLAYER w) = Aiming"
  shows "playerState (PLAYER (onFling w)) = Idle
   \<and> (if lengthSq (flingForce (PLAYER w)) < FLING_FORCE_MIN \<or> flings (PLAYER w) = 0
      then velocity (PLAYER (onFling w)) = velocity (PLAYER w)
         \<and> flings (PLAYER (onFling w)) = flings (PLAYER w)
         \<and> played (onFling w) = played w @ [SFX_Spike]
      else velocity (PLAYER (onFling w)) = multiplyScalar (flingForce (PLAYER w)) 5
         \<and> flings (PLAYER (onFling w)) \<noteq> flings (PLAYER w)
         \<and> flings (PLAYER (onFling w)) = (if 1 \<le> flings (PLAYER w) then flings (PLAYER w) - 1 else 0)
         \<and> played (onFling w) = played w @ [SFX_Fling])"
  using assms
  by (simp add: onFling_def exitAiming_def playSound_def setFlingAmount_def Let_def)

theorem onFling_cancel_or_fling_witness:
  "playerState (PLAYER aimingWorld) = Aiming
   \<and> lengthSq (flingForce (PLAYER aimingWorld)) = 3600
   \<and> flings (PLAYER aimingWorld) = 5
   \<and> playerState (PLAYER (onFling aimingWorld)) = Idle
   \<and> velocity (PLAYER (onFling aimingWorld)) = Victor 0 300
   \<and> flings (PLAYER (onFling aimingWorld)) = 4
   \<and> played (onFling aimingWorld) = [SFX_Fling]
   \<and> playerState (PLAYER pressedWorld) = Aiming
   \<and> lengthSq (flingForce (PLAYER pressedWorld)) = 0
   \<and> flings (PLAYER pressedWorld) = 5
   \<and> playerState (PLAYER (onFling pressedWorld)) = Idle
   \<and> velocity (PLAYER (onFling pressedWorld)) = velocity (PLAYER pressedWorld)
   \<and> flings (PLAYER (onFling pressedWorld)) = 5
   \<and> played (onFling pressedWorld) = [SFX_Aim, SFX_Spike]"
  using onFling_cancel_or_fling[of aimingWorld] onFling_cancel_or_fling[of pressedWorld]
  by (simp add: world_defs start_defs vec_defs const_defs)

text \<open>
  C1 as stated fails at the boundary: with a squared fling force of exactly
  \<open>FLING_FORCE_MIN\<close> and five flings left, the release is not cancelled: the velocity
  changes and a fling is spent.
\<close>

theorem onFling_boundary_counterexample:
  "playerState (PLAYER boundaryWorld) = Aiming
   \<and> lengthSq (flingForce (PLAYER boundaryWorld)) = FLING_FORCE_MIN
   \<and> flings (PLAYER boundaryWorld) = 5
   \<and> velocity (PLAYER boundaryWorld) = Victor 0 0
   \<and> velocity (PLAYER (onFling boundaryWorld)) = Victor (sqrt 3500 * 5) 0
   \<and> velocity (PLAYER (onFling boundaryWorld)) \<noteq> velocity (PLAYER boundaryWorld)
   \<and> flings (PLAYER (onFling boundaryWorld)) = 4"
  by (simp add: world_defs start_defs vec_defs const_defs onFling_def exitAiming_def
      playSound_def setFlingAmount_def Let_def)

section \<open>The player's frame and the events\<close>

lemma fold_indicator_shape:
  "\<exists>l. fold (\<lambda>i q. q\<lparr>aimingIndicatorList := (aimingIndicatorList q)(i := h i)\<rparr>) xs p
         = p\<lparr>aimingIndicatorList := l\<rparr>"
    (is "\<exists>l. fold ?F xs p = _")
proof (induction xs arbitrary: p)
  case Nil
  have "fold ?F [] p = p\<lparr>aimingIndicatorList := aimingIndicatorList p\<rparr>" by simp
  then show ?case by blast
next
  case (Cons i xs)
  obtain l where l: "fold ?F xs (?F i p) = (?F i p)\<lparr>aimingIndicatorList := l\<rparr>"
    using Cons.IH by blast
  have 1: "(?F i p)\<lparr>aimingIndicatorList := l\<rparr> = p\<lparr>aimingIndicatorList := l\<rparr>" by simp
  have 2: "fold ?F (i # xs) p = fold ?F xs (?F i p)" by (simp only: fold_simps o_apply)
  have "fold ?F (i # xs) p = p\<lparr>aimingIndicatorList := l\<rparr>"
    by (simp only: 1 2 l)
  then show ?case by blast
qed

lemma updateAimingIndicator_shape:
  "\<exists>l. snd (updateAimingIndicator p) = p\<lparr>aimingIndicatorList := l\<rparr>"
  unfolding updateAimingIndicator_def Let_def snd_conv
  by (rule fold_indicator_shape)

lemma whenAim_shape:
  "\<exists>l cam. whenAim w =
     w\<lparr>PLAYER := (PLAYER w)\<lparr>flingForce :=
            subtract (mouseDownCanvasPosition w) (mouseCanvasPosition w),
          aimingIndicatorList := l\<rparr>,
       CAMERA := cam\<rparr>"
proof -
  obtain l where "snd (updateAimingIndicator ((PLAYER w)\<lparr>flingForce :=
            subtract (mouseDownCanvasPosition w) (mouseCanvasPosition w)\<rparr>))
      = ((PLAYER w)\<lparr>flingForce :=
            subtract (mouseDownCanvasPosition w) (mouseCanvasPosition w)\<rparr>)\<lparr>aimingIndicatorList := l\<rparr>"
    using updateAimingIndicator_shape by blast
  then show ?thesis unfolding whenAim_def Let_def by auto
qed

lemma whenAim_frame:
  assumes "\<And>w ff l cam. f (w\<lparr>PLAYER := (PLAYER w)\<lparr>flingForce := ff, aimingIndicatorList := l\<rparr>,
              CAMERA := cam\<rparr>) = f w"
  shows "f (whenAim w) = f w"
proof -
  obtain l cam where "whenAim w =
     w\<lparr>PLAYER := (PLAYER w)\<lparr>flingForce :=
            subtract (mouseDownCanvasPosition w) (mouseCanvasPosition w),
          aimingIndicatorList := l\<rparr>,
       CAMERA := cam\<rparr>" using whenAim_shape by blast
  then show ?thesis by (simp only: assms)
qed


lemma forEach_checkCollisions_orb_flings:
  "0 \<le> flings (PLAYER w) \<Longrightarrow> 0 \<le> flings (PLAYER (snd (forEach checkCollisions_orb xs w)))"
  by (rule forEach_invariant[where P = "\<lambda>w. 0 \<le> flings (PLAYER w)"])
     (simp_all add: snd_checkCollisions_orb)

lemma forEach_checkCollisions_spike_flings:
  "0 \<le> flings (PLAYER w) \<Longrightarrow> 0 \<le> flings (PLAYER (snd (forEach checkCollisions_spike xs w)))"
  by (rule forEach_invariant[where P = "\<lambda>w. 0 \<le> flings (PLAYER w)"])
     (simp_all add: snd_checkCollisions_spike)

lemma checkCollisions_flings:
  assumes "0 \<le> flings (PLAYER w)"
  shows "0 \<le> flings (PLAYER (checkCollisions w))"
proof -
  have "0 \<le> flings (PLAYER (snd (forEach checkCollisions_orb (ORBS w) w)))"
    using assms by (rule forEach_checkCollisions_orb_flings)
  then have "0 \<le> flings (PLAYER (snd (forEach checkCollisions_spike
       (SPIKES (snd (forEach checkCollisions_orb (ORBS w) w)))
       ((snd (forEach checkCollisions_orb (ORBS w) w))
          \<lparr>ORBS := fst (forEach checkCollisions_orb (ORBS w) w)\<rparr>))))"
    by (intro forEach_checkCollisions_spike_flings) simp
  then show ?thesis by (simp add: checkCollisions_def split_beta)
qed

lemma whenAlive_cases:
  "whenAlive w = onDeath w \<or> whenAlive w = checkCollisions w"
  by (simp add: whenAlive_def)

lemma onDeath_player:
  "playerState (PLAYER (onDeath w)) = Dead"
  "flings (PLAYER (onDeath w)) = flings (PLAYER w)"
  "momentOfAcceleration (PLAYER (onDeath w)) = momentOfAcceleration (PLAYER w)"
  "timeSpeed (onDeath w) = timeSpeed w"
  by (simp_all add: onDeath_def exitAiming_def playSound_def recordDeathHeight_def
      saveHighestsDeath_def Let_def)

lemma transitionToMenu_player: "PLAYER (transitionToMenu w) = PLAYER w"
  "timeSpeed (transitionToMenu w) = timeSpeed w"
  by (simp_all add: transitionToMenu_def resetMenu_def switchToScene_def Let_def)

lemma Player_fsm_frame:
  assumes "\<And>w. f (checkCollisions w) = f w" and "\<And>w. f (onDeath w) = f w"
    and "\<And>w. f (whenAim w) = f w" and "\<And>w. f (transitionToMenu w) = f w"
    and "\<And>w. f (whenTutorial w) = f w"
  shows "f (Player_fsm w) = f w"
proof -
  have alive: "f (whenAlive w) = f w" for w
    using whenAlive_cases[of w] assms(1,2) by auto
  show ?thesis
    by (cases "playerState (PLAYER w)")
       (simp_all add: Player_fsm_def whenDead_def alive assms)
qed

lemma Player_fsm_timeSpeed: "timeSpeed (Player_fsm w) = timeSpeed w"
proof (rule Player_fsm_frame)
  show "timeSpeed (checkCollisions w) = timeSpeed w" for w
    by (rule checkCollisions_frame) simp
  show "timeSpeed (whenAim w) = timeSpeed w" for w
    by (rule whenAim_frame) simp
qed (simp_all add: onDeath_player transitionToMenu_player whenTutorial_def)

lemma Player_fsm_momentOfAcceleration:
  "momentOfAcceleration (PLAYER (Player_fsm w)) = momentOfAcceleration (PLAYER w)"
proof (rule Player_fsm_frame[where f = "\<lambda>w. momentOfAcceleration (PLAYER w)"])
  show "momentOfAcceleration (PLAYER (checkCollisions w)) = momentOfAcceleration (PLAYER w)" for w
    by (rule checkCollisions_frame) simp
  show "momentOfAcceleration (PLAYER (whenAim w)) = momentOfAcceleration (PLAYER w)" for w
    by (rule whenAim_frame) simp
qed (simp_all add: onDeath_player transitionToMenu_player whenTutorial_def)

lemma whenAim_player:
  "playerState (PLAYER (whenAim w)) = playerState (PLAYER w)"
  "flings (PLAYER (whenAim w)) = flings (PLAYER w)"
  by (rule whenAim_frame, simp)+

lemma Player_fsm_flings:
  assumes "0 \<le> flings (PLAYER w)"
  shows "0 \<le> flings (PLAYER (Player_fsm w))"
proof -
  have alive: "0 \<le> flings (PLAYER (whenAlive w))"
    using whenAlive_cases[of w] assms checkCollisions_flings[of w]
    by (auto simp: onDeath_player)
  show ?thesis
    using assms alive
    by (cases "playerState (PLAYER w)")
       (simp_all add: Player_fsm_def whenDead_def transitionToMenu_player whenTutorial_def
          whenAim_player)
qed

lemma Player_fsm_state:
  "playerState (PLAYER (Player_fsm w)) = playerState (PLAYER w)
   \<or> playerState (PLAYER (Player_fsm w)) = Dead"
proof -
  have cc: "playerState (PLAYER (checkCollisions w)) = playerState (PLAYER w)" for w
    by (rule checkCollisions_frame) simp
  have alive: "playerState (PLAYER (whenAlive w)) = playerState (PLAYER w)
     \<or> playerState (PLAYER (whenAlive w)) = Dead" for w
    using whenAlive_cases[of w] by (auto simp: onDeath_player cc)
  show ?thesis
    using alive[of w]
    by (cases "playerState (PLAYER w)")
       (auto simp add: Player_fsm_def whenDead_def transitionToMenu_player whenTutorial_def
          whenAim_player)
qed

lemma Player_update_player:
  "playerState (PLAYER (Player_update w)) = playerState (PLAYER (Player_fsm w))"
  "flings (PLAYER (Player_update w)) = flings (PLAYER (Player_fsm w))"
  "flingForce (PLAYER (Player_update w)) = flingForce (PLAYER (Player_fsm w))"
  by (simp_all add: Player_update_def Let_def bounce_def playSound_def PhysicsObject_update_def)

lemma Player_update_globals:
  "currentGameSpeed (Player_update w) = currentGameSpeed (Player_fsm w)"
  "targetGameSpeed (Player_update w) = targetGameSpeed (Player_fsm w)"
  "timeSpeed (Player_update w) = timeSpeed (Player_fsm w)"
  "CAMERA (Player_update w) = CAMERA (Player_fsm w)"
  "WAVE (Player_update w) = WAVE (Player_fsm w)"
  "mouseCanvasPosition (Player_update w) = mouseCanvasPosition (Player_fsm w)"
  "mouseDownCanvasPosition (Player_update w) = mouseDownCanvasPosition (Player_fsm w)"
  by (simp_all add: Player_update_def Let_def bounce_def playSound_def)

lemma Wave_update_others:
  "PLAYER (Wave_update w) = PLAYER w" "CAMERA (Wave_update w) = CAMERA w"
  "currentGameSpeed (Wave_update w) = currentGameSpeed w"
  "targetGameSpeed (Wave_update w) = targetGameSpeed w"
  "timeSpeed (Wave_update w) = timeSpeed w"
  "mouseCanvasPosition (Wave_update w) = mouseCanvasPosition w"
  "mouseDownCanvasPosition (Wave_update w) = mouseDownCanvasPosition w"
  by (simp_all add: Wave_update_def Let_def)

lemma forEach_Obstacle_update_Orb_shape:
  "\<exists>n. snd (forEach (Obstacle_update Orb_respawn) xs w) = w\<lparr>randomCount := n\<rparr>"
proof (rule forEach_invariant[where P = "\<lambda>w'. \<exists>n. w' = w\<lparr>randomCount := n\<rparr>"])
  fix x w' assume "\<exists>n. w' = w\<lparr>randomCount := n\<rparr>"
  then obtain n where "w' = w\<lparr>randomCount := n\<rparr>" by blast
  then show "\<exists>n. snd (Obstacle_update Orb_respawn x w') = w\<lparr>randomCount := n\<rparr>"
    by (simp add: Obstacle_update_def snd_Orb_respawn) blast
next
  have "w = w\<lparr>randomCount := randomCount w\<rparr>" by simp
  then show "\<exists>n. w = w\<lparr>randomCount := n\<rparr>" by blast
qed

lemma forEach_Obstacle_update_Spike_shape:
  "\<exists>n. snd (forEach (Obstacle_update Spike_respawn) xs w) = w\<lparr>randomCount := n\<rparr>"
proof (rule forEach_invariant[where P = "\<lambda>w'. \<exists>n. w' = w\<lparr>randomCount := n\<rparr>"])
  fix x w' assume "\<exists>n. w' = w\<lparr>randomCount := n\<rparr>"
  then obtain n where "w' = w\<lparr>randomCount := n\<rparr>" by blast
  then show "\<exists>n. snd (Obstacle_update Spike_respawn x w') = w\<lparr>randomCount := n\<rparr>"
    by (simp add: Obstacle_update_def snd_Spike_respawn) blast
next
  have "w = w\<lparr>randomCount := randomCount w\<rparr>" by simp
  then show "\<exists>n. w = w\<lparr>randomCount := n\<rparr>" by blast
qed

lemma updateObjects_shape:
  "\<exists>n os ss. updateObjects w =
     Wave_update (Player_update (w\<lparr>ORBS := os, randomCount := n, SPIKES := ss\<rparr>))"
proof -
  obtain n1 where 1: "snd (forEach (Obstacle_update Orb_respawn) (ORBS w) w) = w\<lparr>randomCount := n1\<rparr>"
    using forEach_Obstacle_update_Orb_shape by blast
  define os where "os = fst (forEach (Obstacle_update Orb_respawn) (ORBS w) w)"
  obtain n2 where 2: "snd (forEach (Obstacle_update Spike_respawn) (SPIKES w)
        (w\<lparr>randomCount := n1, ORBS := os\<rparr>)) = (w\<lparr>randomCount := n1, ORBS := os\<rparr>)\<lparr>randomCount := n2\<rparr>"
    using forEach_Obstacle_update_Spike_shape by blast
  define ss where "ss = fst (forEach (Obstacle_update Spike_respawn) (SPIKES w)
        (w\<lparr>randomCount := n1, ORBS := os\<rparr>))"
  have "updateObjects w = Wave_update (Player_update (w\<lparr>ORBS := os, randomCount := n2, SPIKES := ss\<rparr>))"
    using 1 2 by (simp add: updateObjects_def split_beta os_def ss_def)
  then show ?thesis by blast
qed

lemma respawnApart_shape:
  assumes "respawnApart respawn bnds ps ob w = Some y"
    and "\<forall>b ob w. \<exists>n. snd (respawn b ob w) = w\<lparr>randomCount := n\<rparr>"
  shows "\<exists>n. snd y = w\<lparr>randomCount := n\<rparr>"
  using assms
proof (induction respawn bnds ps ob w y rule: respawnApart.raw_induct[rotated 1, consumes 1, case_names step])
  case (step rec respawn bnds ps ob w y)
  obtain n where n: "snd (respawn bnds ob w) = w\<lparr>randomCount := n\<rparr>"
    using "step.prems" by blast
  show ?case
  proof (cases "isColliding (vectorPosition (fst (respawn bnds ob w)))
       (colliderRadius (fst (respawn bnds ob w)))
       (vectorPosition (PLAYER (snd (respawn bnds ob w)))) ps")
    case True
    then have a: "rec respawn bnds ps (fst (respawn bnds ob w)) (snd (respawn bnds ob w)) = Some y"
      using "step.hyps" by (simp add: split_beta)
    obtain m where "snd y = (snd (respawn bnds ob w))\<lparr>randomCount := m\<rparr>"
      using "step.IH"[OF a "step.prems"] by blast
    then have "snd y = w\<lparr>randomCount := m\<rparr>" by (simp add: n)
    then show ?thesis by blast
  next
    case False
    then have "y = respawn bnds ob w" using "step.hyps" by (simp add: split_beta)
    then show ?thesis using n by blast
  qed
qed

lemma forEach_option_invariant:
  assumes "\<And>x w y. P w \<Longrightarrow> body x w = Some y \<Longrightarrow> P (snd y)"
    and "P w" and "forEach_option body xs w = Some r"
  shows "P (snd r)"
  using assms(2,3)
proof (induction xs arbitrary: w r)
  case Nil
  then show ?case by auto
next
  case (Cons x xs)
  from Cons.prems(2) obtain y where y: "body x w = Some y"
    by (cases "body x w") simp_all
  with Cons.prems(2) obtain r' where r': "forEach_option body xs (snd y) = Some r'"
    by (cases "forEach_option body xs (snd y)") (simp_all add: split_beta)
  have "P (snd y)" using assms(1) Cons.prems(1) y by blast
  then have "P (snd r')" using r' by (rule Cons.IH)
  moreover have "snd r = snd r'" using Cons.prems(2) y r' by (auto simp add: split_beta)
  ultimately show ?case by simp
qed

lemma respawn_shapes:
  "\<forall>b ob w. \<exists>n. snd (Orb_respawn b ob w) = w\<lparr>randomCount := n\<rparr>"
  "\<forall>b ob w. \<exists>n. snd (Spike_respawn b ob w) = w\<lparr>randomCount := n\<rparr>"
  by (simp_all add: snd_Orb_respawn snd_Spike_respawn) blast+

lemma resetObjects_player:
  assumes "resetObjects bnds w = Some w'"
  shows "PLAYER w' = PLAYER w"
proof -
  let ?ps = "colliderRadius (PLAYER w) * 10"
  from assms obtain r1 where r1: "forEach_option (respawnApart Orb_respawn bnds ?ps) (ORBS w) w = Some r1"
    by (cases "forEach_option (respawnApart Orb_respawn bnds ?ps) (ORBS w) w")
       (simp_all add: resetObjects_def Let_def)
  with assms obtain r2 where r2: "forEach_option (respawnApart Spike_respawn bnds ?ps)
        (SPIKES (snd r1)) ((snd r1)\<lparr>ORBS := fst r1\<rparr>) = Some r2"
    by (cases "forEach_option (respawnApart Spike_respawn bnds ?ps)
        (SPIKES (snd r1)) ((snd r1)\<lparr>ORBS := fst r1\<rparr>)")
       (simp_all add: resetObjects_def Let_def split_beta)
  have w': "w' = (snd r2)\<lparr>SPIKES := fst r2\<rparr>"
    using assms r1 r2 by (simp add: resetObjects_def Let_def split_beta)
  have 1: "PLAYER (snd r1) = PLAYER w"
  proof (rule forEach_option_invariant[where P = "\<lambda>v. PLAYER v = PLAYER w", OF _ _ r1])
    fix x v y assume "PLAYER v = PLAYER w" and "respawnApart Orb_respawn bnds ?ps x v = Some y"
    then show "PLAYER (snd y) = PLAYER w"
      using respawnApart_shape[OF _ respawn_shapes(1)] by fastforce
  qed simp
  have 2: "PLAYER (snd r2) = PLAYER ((snd r1)\<lparr>ORBS := fst r1\<rparr>)"
  proof (rule forEach_option_invariant[where P = "\<lambda>v. PLAYER v = PLAYER ((snd r1)\<lparr>ORBS := fst r1\<rparr>)", OF _ _ r2])
    fix x v y assume "PLAYER v = PLAYER ((snd r1)\<lparr>ORBS := fst r1\<rparr>)"
      and "respawnApart Spike_respawn bnds ?ps x v = Some y"
    then show "PLAYER (snd y) = PLAYER ((snd r1)\<lparr>ORBS := fst r1\<rparr>)"
      using respawnApart_shape[OF _ respawn_shapes(2)] by fastforce
  qed simp
  show ?thesis using 1 2 by (simp add: w')
qed

lemma resetGame_player:
  assumes "resetGame w = Some w'"
  shows "PLAYER w' = Player_reset (PLAYER w)"
proof -
  let ?w3 = "(w\<lparr>PLAYER := Player_reset (PLAYER w)\<rparr>)\<lparr>CAMERA :=
      computeMatrix ((CAMERA w)\<lparr>zoom := CAMERA_ZOOM_DEFAULT, position := CAMERA_POSITION_DEFAULT\<rparr>)\<rparr>"
  from assms obtain w4 where w4: "resetObjects (boundingRectangle (CAMERA ?w3)) ?w3 = Some w4"
    and w': "w' = w4\<lparr>WAVE := Wave_reset (WAVE w4)\<rparr>"
    by (cases "resetObjects (boundingRectangle (CAMERA ?w3)) ?w3")
       (simp_all add: resetGame_def Let_def)
  show ?thesis using resetObjects_player[OF w4] by (simp add: w')
qed

lemma Player_reset_fields:
  "playerState (Player_reset p) = Tutorial" "flings (Player_reset p) = 5"
  by (simp_all add: Player_reset_def setFlingAmount_def STARTING_FLINGS_def Let_def)

lemma step_PlayClicked_player:
  assumes "step PlayClicked w = Some w'"
  shows "PLAYER w' = Player_reset (PLAYER w)"
proof -
  from assms obtain w1 where "resetGame w = Some w1"
    and "w' = playSound SFX_Select (switchToScene SCENE_Game w1)"
    by (cases "resetGame w") (simp_all add: transitionToGame_def)
  then show ?thesis using resetGame_player[of w w1]
    by (simp add: playSound_def switchToScene_def)
qed

lemma updateMenu_player: "PLAYER (updateMenu w) = PLAYER w"
  by (simp add: updateMenu_def updateInputManager_def Let_def)

lemma updateGame_shape:
  "\<exists>w5. updateGame ms w = Wave_update (Player_update w5) \<and> PLAYER w5 = PLAYER w
     \<and> mouseCanvasPosition w5 = mouseCanvasPosition w
     \<and> mouseDownCanvasPosition w5 = mouseDownCanvasPosition w \<and> WAVE w5 = WAVE w"
proof -
  define w4 where "w4 = updatePhysicsManager ms (updateInputManager
     (w\<lparr>CAMERA := Camera_update (easeTo (vectorPosition (PLAYER w)) CAMERA_ZOOM_DEFAULT
        (if lengthSq (velocity (PLAYER w)) > 6000000
         then CAMERA_SPEEDING_EASING_FACTOR else CAMERA_EASING_FACTOR) (CAMERA w))\<rparr>))"
  have 1: "updateGame ms w = updateObjects w4"
    by (simp add: updateGame_def Let_def w4_def)
  have 2: "PLAYER w4 = PLAYER w" "mouseCanvasPosition w4 = mouseCanvasPosition w"
     "mouseDownCanvasPosition w4 = mouseDownCanvasPosition w" "WAVE w4 = WAVE w"
    by (simp_all add: w4_def updatePhysicsManager_def updateInputManager_def Let_def)
  obtain n os ss where "updateObjects w4 =
     Wave_update (Player_update (w4\<lparr>ORBS := os, randomCount := n, SPIKES := ss\<rparr>))"
    using updateObjects_shape by blast
  then show ?thesis using 1 2
    by (intro exI[of _ "w4\<lparr>ORBS := os, randomCount := n, SPIKES := ss\<rparr>"]) simp
qed

section \<open>The wave\<close>

lemma Wave_update_clamp:
  "playerState (PLAYER w) \<noteq> Aiming \<Longrightarrow>
     wave_y (WAVE (Wave_update w)) \<le> rect_bottom (boundingRectangle (CAMERA w)) + 100"
  "rect_y (bounds (WAVE (Wave_update w))) = wave_y (WAVE (Wave_update w))"
  by (simp_all add: Wave_update_def Let_def)

text \<open>
  C3. After \<open>Wave.update()\<close> the collider's \<open>y\<close> equals the wave's \<open>y\<close>, and when the
  player is not \<open>Aiming\<close> the wave's top edge is at most 100 below the bottom of the
  camera's bounding rectangle. The same holds after a whole frame of the game, for a player
  who is not \<open>Aiming\<close> when the frame starts or when it ends.
\<close>

theorem Wave_update_catches_up:
  "(playerState (PLAYER w) \<noteq> Aiming \<longrightarrow>
      wave_y (WAVE (Wave_update w))
        \<le> rect_bottom (boundingRectangle (CAMERA (Wave_update w))) + 100)
   \<and> rect_y (bounds (WAVE (Wave_update w))) = wave_y (WAVE (Wave_update w))
   \<and> (playerState (PLAYER w) \<noteq> Aiming \<or> playerState (PLAYER (updateGame ms w)) \<noteq> Aiming \<longrightarrow>
        wave_y (WAVE (updateGame ms w))
          \<le> rect_bottom (boundingRectangle (CAMERA (updateGame ms w))) + 100)
   \<and> rect_y (bounds (WAVE (updateGame ms w))) = wave_y (WAVE (updateGame ms w))"
proof -
  obtain w5 where g: "updateGame ms w = Wave_update (Player_update w5)"
    and p: "PLAYER w5 = PLAYER w"
    using updateGame_shape by blast
  let ?u = "Player_update w5"
  have "playerState (PLAYER ?u) \<noteq> Aiming"
    if "playerState (PLAYER w) \<noteq> Aiming \<or> playerState (PLAYER (updateGame ms w)) \<noteq> Aiming"
    using that Player_fsm_state[of w5]
    by (auto simp add: g p Player_update_player Wave_update_others)
  then show ?thesis
    using Wave_update_clamp[of ?u] Wave_update_clamp[of w]
    by (auto simp add: g Wave_update_others)
qed

theorem Wave_update_catches_up_witness:
  "playerState (PLAYER lowWaveWorld) = Idle
   \<and> wave_y (WAVE lowWaveWorld) = 1000
   \<and> rect_bottom (boundingRectangle (CAMERA lowWaveWorld)) + 100 = 475
   \<and> wave_y (WAVE (Wave_update lowWaveWorld)) \<le> 475
   \<and> rect_y (bounds (WAVE (Wave_update lowWaveWorld))) = wave_y (WAVE (Wave_update lowWaveWorld))
   \<and> wave_y (WAVE (updateGame 16 lowWaveWorld))
        \<le> rect_bottom (boundingRectangle (CAMERA (updateGame 16 lowWaveWorld))) + 100"
  using Wave_update_catches_up[of lowWaveWorld 16]
  by (simp add: Wave_update_others world_defs start_defs const_defs rect_defs
      computeMatrix_fields)

section \<open>A click on Play that returns\<close>

text \<open>
  With a random source that only yields 0, every obstacle is respawned in the top left
  corner of the view, away from the player, and the rejection loop of \<open>resetObjects\<close> ends
  after one round for each obstacle.
\<close>

lemmas click_defs = start_defs const_defs vec_defs rect_defs
  transitionToGame_def resetGame_def resetObjects_def respawnApart.simps
  Orb_respawn_def Spike_respawn_def Obstacle_respawn_eq random_max_def Math_random_def
  setScale_def Player_reset_def setFlingAmount_def Wave_reset_def switchToScene_def
  playSound_def computeMatrix_def computeBoundingRectangle_def canvasToWorld_def
  Matrix_applyInverse_def Matrix_translate_def Matrix_scale_def Matrix_identity_def
  Let_def

lemma click_returns:
  "(case step PlayClicked clickWorld of
      None \<Rightarrow> False
    | Some w \<Rightarrow> vectorPosition (hd (ORBS w)) = Victor 0 (- 375) \<and> randomCount w = 10
        \<and> currentScene w = SCENE_Game \<and> played w = [SFX_Select])"
  by (simp add: world_defs click_defs)

lemma click_Some: "step PlayClicked clickWorld = Some (the (step PlayClicked clickWorld))"
  using click_returns by (cases "step PlayClicked clickWorld") simp_all

lemma tutorial_click_returns:
  "(case step PlayClicked tutorialWorld of
      None \<Rightarrow> False
    | Some w \<Rightarrow> randomCount w = 10 \<and> currentScene w = SCENE_Game)"
  by (simp add: world_defs click_defs)

lemma tutorial_click_Some:
  "step PlayClicked tutorialWorld = Some (the (step PlayClicked tutorialWorld))"
  using tutorial_click_returns by (cases "step PlayClicked tutorialWorld") simp_all

section \<open>The fling count and the tutorial\<close>

lemma updateGame_player:
  "\<exists>w5. PLAYER (updateGame ms w) = PLAYER (Player_update w5) \<and> PLAYER w5 = PLAYER w
     \<and> currentGameSpeed (updateGame ms w) = currentGameSpeed (Player_fsm w5)
     \<and> targetGameSpeed (updateGame ms w) = targetGameSpeed (Player_fsm w5)"
proof -
  obtain w5 where "updateGame ms w = Wave_update (Player_update w5)" "PLAYER w5 = PLAYER w"
    using updateGame_shape by blast
  then show ?thesis
    by (intro exI[of _ w5]) (simp add: Wave_update_others Player_update_globals)
qed

lemma update_flings:
  assumes "0 \<le> flings (PLAYER w)"
  shows "0 \<le> flings (PLAYER (update ms w))"
proof (cases "currentScene w")
  case SCENE_Menu
  then show ?thesis using assms by (simp add: update_def updateMenu_player)
next
  case SCENE_Game
  obtain w5 where "PLAYER (updateGame ms w) = PLAYER (Player_update w5)" "PLAYER w5 = PLAYER w"
    using updateGame_player by blast
  then show ?thesis using assms SCENE_Game Player_fsm_flings[of w5]
    by (simp add: update_def Player_update_player)
qed

lemma onAim_flings: "flings (PLAYER (onAim w)) = flings (PLAYER w)"
  by (simp add: onAim_def playSound_def Let_def)

lemma onFling_flings: "0 \<le> flings (PLAYER w) \<Longrightarrow> 0 \<le> flings (PLAYER (onFling w))"
  by (simp add: onFling_def exitAiming_def playSound_def setFlingAmount_def Let_def)

lemma step_flings:
  assumes "0 \<le> flings (PLAYER w)" and "step e w = Some w'"
  shows "0 \<le> flings (PLAYER w')"
proof (cases e)
  case (Frame ms)
  then show ?thesis using assms update_flings[of w ms] by auto
next
  case (PointerMove cx cy)
  then show ?thesis using assms by (auto simp add: onpointermove_def Let_def)
next
  case (PointerDown cx cy)
  then show ?thesis using assms by (auto simp add: onpointerdown_def Let_def onAim_flings)
next
  case (PointerUp cx cy)
  then show ?thesis using assms
    onFling_flings[of "w\<lparr>mouseDown := False, mouseUpCanvasPosition :=
        subtract (Victor cx cy) (APP_CLIENT_POSITION w)\<rparr>"]
    by (auto simp add: onpointerup_def Let_def)
next
  case PlayClicked
  then show ?thesis using assms step_PlayClicked_player[of w w']
    by (simp add: Player_reset_fields)
qed

lemma run_flings:
  "0 \<le> flings (PLAYER w) \<Longrightarrow> run es w = Some w' \<Longrightarrow> 0 \<le> flings (PLAYER w')"
proof (induction es arbitrary: w)
  case Nil
  then show ?case by simp
next
  case (Cons e es)
  from Cons.prems(2) obtain w1 where w1: "step e w = Some w1" and r: "run es w1 = Some w'"
    by (cases "step e w") simp_all
  have "0 \<le> flings (PLAYER w1)" using Cons.prems(1) w1 by (rule step_flings)
  then show ?case using r by (rule Cons.IH)
qed

text \<open>
  C7. The fling count is never negative. \<open>setFlingAmount\<close> stores no negative amount;
  the count starts at 0; and from a world with a count of at least 0, no sequence of
  events (frames, pointer moves, presses and releases, clicks on Play) that runs to its
  end leads to a negative count. In particular no run of spike reactions does. Every
  event but the click on Play runs to its end.
\<close>

theorem flings_never_negative:
  "0 \<le> flings (setFlingAmount amount p)
   \<and> flings (PLAYER (startWorld clientPosition rnd)) = 0
   \<and> (0 \<le> flings (PLAYER w) \<and> run es w = Some w' \<longrightarrow> 0 \<le> flings (PLAYER w'))
   \<and> (0 \<le> flings (PLAYER w) \<longrightarrow>
        0 \<le> flings (PLAYER (snd (forEach checkCollisions_spike spikes w))))
   \<and> (e \<noteq> PlayClicked \<longrightarrow> step e w \<noteq> None)"
proof -
  have "step e w \<noteq> None" if "e \<noteq> PlayClicked"
    using that by (cases e) simp_all
  then show ?thesis
    using run_flings[of w es w'] forEach_checkCollisions_spike_flings[of w spikes]
    by (simp add: setFlingAmount_def Let_def start_defs)
qed

lemma spikes_drain_example:
  "flings (PLAYER (snd (forEach checkCollisions_spike
          [newSpike\<lparr>vectorPosition := Victor 250 0\<rparr>, newSpike\<lparr>vectorPosition := Victor 250 0\<rparr>,
           newSpike\<lparr>vectorPosition := Victor 250 0\<rparr>] spikedWorld))) = 0"
  by (simp add: spikedWorld_def world_defs start_defs const_defs vec_defs split_beta
      snd_checkCollisions_spike Player_isColliding_def)

theorem flings_never_negative_witness:
  "flings (PLAYER clickWorld) = 1
   \<and> run [PlayClicked, PointerDown 100 100, Frame 16, PointerUp 100 40] clickWorld
       = Some (onpointerup 100 40 (update 16 (onpointerdown 100 100
                 (the (step PlayClicked clickWorld)))))
   \<and> 0 \<le> flings (PLAYER (onpointerup 100 40 (update 16 (onpointerdown 100 100
                 (the (step PlayClicked clickWorld))))))
   \<and> 0 \<le> flings (PLAYER (snd (forEach checkCollisions_spike
          [newSpike\<lparr>vectorPosition := Victor 250 0\<rparr>, newSpike\<lparr>vectorPosition := Victor 250 0\<rparr>,
           newSpike\<lparr>vectorPosition := Victor 250 0\<rparr>] spikedWorld)))
   \<and> flings (PLAYER (snd (forEach checkCollisions_spike
          [newSpike\<lparr>vectorPosition := Victor 250 0\<rparr>, newSpike\<lparr>vectorPosition := Victor 250 0\<rparr>,
           newSpike\<lparr>vectorPosition := Victor 250 0\<rparr>] spikedWorld))) = 0"
proof -
  have f: "flings (PLAYER clickWorld) = 1" "flings (PLAYER spikedWorld) = 1"
    by (simp_all add: clickWorld_def spikedWorld_def)
  have r: "run [PlayClicked, PointerDown 100 100, Frame 16, PointerUp 100 40] clickWorld
       = Some (onpointerup 100 40 (update 16 (onpointerdown 100 100
                 (the (step PlayClicked clickWorld)))))"
    using click_Some by (cases "step PlayClicked clickWorld") simp_all
  show ?thesis
    using spikes_drain_example r
      flings_never_negative[of _ _ _ _ clickWorld
        "[PlayClicked, PointerDown 100 100, Frame 16, PointerUp 100 40]"
        "onpointerup 100 40 (update 16 (onpointerdown 100 100 (the (step PlayClicked clickWorld))))"
        "[]"]
      flings_never_negative[of _ _ _ _ spikedWorld "[]" spikedWorld
        "[newSpike\<lparr>vectorPosition := Victor 250 0\<rparr>, newSpike\<lparr>vectorPosition := Victor 250 0\<rparr>,
           newSpike\<lparr>vectorPosition := Victor 250 0\<rparr>]"]
    by (simp add: f)
qed

lemma update_Tutorial:
  assumes "playerState (PLAYER w) = Tutorial"
  shows "playerState (PLAYER (update ms w)) = Tutorial"
    and "currentScene w = SCENE_Game \<Longrightarrow> currentGameSpeed (update ms w) = 0"
    and "currentScene w = SCENE_Game \<Longrightarrow> targetGameSpeed (update ms w) = 0"
proof -
  obtain w5 where w5: "PLAYER (updateGame ms w) = PLAYER (Player_update w5)" "PLAYER w5 = PLAYER w"
     "currentGameSpeed (updateGame ms w) = currentGameSpeed (Player_fsm w5)"
     "targetGameSpeed (updateGame ms w) = targetGameSpeed (Player_fsm w5)"
    using updateGame_player by blast
  have fsm: "Player_fsm w5 = whenTutorial w5"
    using assms w5(2) by (simp add: Player_fsm_def)
  show "playerState (PLAYER (update ms w)) = Tutorial"
    using assms w5 fsm
    by (cases "currentScene w")
       (simp_all add: update_def updateMenu_player Player_update_player whenTutorial_def)
  show "currentScene w = SCENE_Game \<Longrightarrow> currentGameSpeed (update ms w) = 0"
    using w5 fsm by (simp add: update_def whenTutorial_def)
  show "currentScene w = SCENE_Game \<Longrightarrow> targetGameSpeed (update ms w) = 0"
    using w5 fsm by (simp add: update_def whenTutorial_def)
qed

text \<open>
  C10. \<open>onAim\<close> is guarded against the \<open>Dead\<close> state only: in every other state,
  \<open>Tutorial\<close> and \<open>Idle\<close> included, it sets the state to \<open>Aiming\<close>. A player in
  \<open>Tutorial\<close> stays there under every event but the pointer press. \<open>whenTutorial\<close>
  sets the current and the target game speed to 0, so both are 0 after every frame of
  the game scene that the player starts in \<open>Tutorial\<close>.
\<close>

theorem Tutorial_left_by_aim_only:
  "(playerState (PLAYER w) \<noteq> Dead \<longrightarrow> playerState (PLAYER (onAim w)) = Aiming)
   \<and> (playerState (PLAYER w) = Dead \<longrightarrow> onAim w = w)
   \<and> (playerState (PLAYER w) = Tutorial \<and> step e w = Some w' \<longrightarrow>
        playerState (PLAYER w') = (case e of PointerDown cx cy \<Rightarrow> Aiming | _ \<Rightarrow> Tutorial))
   \<and> currentGameSpeed (whenTutorial w) = 0 \<and> targetGameSpeed (whenTutorial w) = 0
   \<and> (playerState (PLAYER w) = Tutorial \<and> currentScene w = SCENE_Game \<longrightarrow>
        currentGameSpeed (update ms w) = 0 \<and> targetGameSpeed (update ms w) = 0)"
proof -
  have aim: "playerState (PLAYER w) \<noteq> Dead \<Longrightarrow> playerState (PLAYER (onAim w)) = Aiming" for w
    by (simp add: onAim_def playSound_def Let_def)
  have st: "playerState (PLAYER w') = (case e of PointerDown cx cy \<Rightarrow> Aiming | _ \<Rightarrow> Tutorial)"
    if t: "playerState (PLAYER w) = Tutorial" and s: "step e w = Some w'"
  proof (cases e)
    case (Frame ms)
    then show ?thesis using t s update_Tutorial(1)[of w ms] by auto
  next
    case (PointerMove cx cy)
    then show ?thesis using t s by (auto simp add: onpointermove_def Let_def)
  next
    case (PointerDown cx cy)
    then show ?thesis using t s
      aim[of "w\<lparr>mouseDown := True, mouseDownCanvasPosition :=
        subtract (Victor cx cy) (APP_CLIENT_POSITION w)\<rparr>"]
      by (auto simp add: onpointerdown_def Let_def)
  next
    case (PointerUp cx cy)
    then show ?thesis using t s by (auto simp add: onpointerup_def onFling_def Let_def)
  next
    case PlayClicked
    then show ?thesis using s step_PlayClicked_player[of w w']
      by (simp add: Player_reset_fields)
  qed
  show ?thesis
    using aim[of w] st update_Tutorial(2,3)[of w ms]
    by (simp add: onAim_def whenTutorial_def)
qed

theorem Tutorial_left_by_aim_only_witness:
  "playerState (PLAYER tutorialWorld) = Tutorial
   \<and> currentScene tutorialWorld = SCENE_Game
   \<and> playerState (PLAYER (onAim tutorialWorld)) = Aiming
   \<and> step (PointerDown 100 100) tutorialWorld = Some (onpointerdown 100 100 tutorialWorld)
   \<and> playerState (PLAYER (onpointerdown 100 100 tutorialWorld)) = Aiming
   \<and> step (Frame 16) tutorialWorld = Some (update 16 tutorialWorld)
   \<and> playerState (PLAYER (update 16 tutorialWorld)) = Tutorial
   \<and> currentGameSpeed (update 16 tutorialWorld) = 0
   \<and> targetGameSpeed (update 16 tutorialWorld) = 0
   \<and> step (PointerUp 100 40) tutorialWorld = Some (onpointerup 100 40 tutorialWorld)
   \<and> playerState (PLAYER (onpointerup 100 40 tutorialWorld)) = Tutorial
   \<and> step PlayClicked tutorialWorld = Some (the (step PlayClicked tutorialWorld))
   \<and> playerState (PLAYER (the (step PlayClicked tutorialWorld))) = Tutorial
   \<and> playerState (PLAYER (startWorld (Victor 0 0) (\<lambda>i. 0))) = Dead
   \<and> onAim (startWorld (Victor 0 0) (\<lambda>i. 0)) = startWorld (Victor 0 0) (\<lambda>i. 0)"
proof -
  have t: "playerState (PLAYER tutorialWorld) = Tutorial"
    by (simp add: tutorialWorld_def Player_reset_fields)
  have g: "currentScene tutorialWorld = SCENE_Game"
    by (simp add: tutorialWorld_def playingWorld_def Let_def)
  have d: "playerState (PLAYER (startWorld (Victor 0 0) (\<lambda>i. 0))) = Dead"
    by (simp add: start_defs)
  show ?thesis
    using Tutorial_left_by_aim_only[of tutorialWorld "PointerDown 100 100"
        "onpointerdown 100 100 tutorialWorld" 16]
      Tutorial_left_by_aim_only[of tutorialWorld "Frame 16" "update 16 tutorialWorld" 16]
      Tutorial_left_by_aim_only[of tutorialWorld "PointerUp 100 40"
        "onpointerup 100 40 tutorialWorld" 16]
      Tutorial_left_by_aim_only[of tutorialWorld PlayClicked
        "the (step PlayClicked tutorialWorld)" 16]
      Tutorial_left_by_aim_only[of "startWorld (Victor 0 0) (\<lambda>i. 0)"]
      tutorial_click_Some
    by (simp add: t g d)
qed

section \<open>Gravity\<close>

lemma Player_update_integrates:
  "\<exists>p. PLAYER (Player_update w) = PhysicsObject_update (timeSpeed w) p
     \<and> momentOfAcceleration p =
         add (momentOfAcceleration (PLAYER w)) (multiplyScalar GRAVITY (timeSpeed w))
     \<and> vy (velocity p) = vy (velocity (PLAYER (Player_fsm w)))
     \<and> vy (vectorPosition p) = vy (vectorPosition (PLAYER (Player_fsm w)))"
proof -
  define w1 where "w1 = Player_fsm w"
  define w2 where "w2 = w1\<lparr>PLAYER := (PLAYER w1)\<lparr>momentOfAcceleration :=
                  add (momentOfAcceleration (PLAYER w1))
                      (multiplyScalar GRAVITY (timeSpeed w1))\<rparr>\<rparr>"
  define w3 where "w3 = (if vx (vectorPosition (PLAYER w2)) < rect_left (boundingRectangle (CAMERA w2))
                then bounce (rect_left (boundingRectangle (CAMERA w2))) w2
                else if vx (vectorPosition (PLAYER w2)) > rect_right (boundingRectangle (CAMERA w2))
                then bounce (rect_right (boundingRectangle (CAMERA w2))) w2
                else w2)"
  have upd: "Player_update w = w3\<lparr>PLAYER := PhysicsObject_update (timeSpeed w3) (PLAYER w3)\<rparr>"
    by (simp add: Player_update_def Let_def w1_def w2_def w3_def)
  have ts: "timeSpeed w3 = timeSpeed w"
    by (simp add: w3_def w2_def w1_def bounce_def playSound_def Let_def Player_fsm_timeSpeed)
  have acc: "momentOfAcceleration (PLAYER w3) =
       add (momentOfAcceleration (PLAYER w)) (multiplyScalar GRAVITY (timeSpeed w))"
    by (simp add: w3_def w2_def w1_def bounce_def playSound_def Let_def Player_fsm_timeSpeed
        Player_fsm_momentOfAcceleration)
  have v: "vy (velocity (PLAYER w3)) = vy (velocity (PLAYER (Player_fsm w)))"
    "vy (vectorPosition (PLAYER w3)) = vy (vectorPosition (PLAYER (Player_fsm w)))"
    by (simp_all add: w3_def w2_def w1_def bounce_def playSound_def Let_def)
  show ?thesis
    by (intro exI[of _ "PLAYER w3"]) (simp add: upd ts acc v)
qed

lemma update_momentOfAcceleration:
  assumes "momentOfAcceleration (PLAYER w) = Victor 0 0"
  shows "momentOfAcceleration (PLAYER (update ms w)) = Victor 0 0"
proof (cases "currentScene w")
  case SCENE_Menu
  then show ?thesis using assms by (simp add: update_def updateMenu_player)
next
  case SCENE_Game
  obtain w5 where w5: "PLAYER (updateGame ms w) = PLAYER (Player_update w5)"
    using updateGame_player by blast
  obtain p where "PLAYER (Player_update w5) = PhysicsObject_update (timeSpeed w5) p"
    using Player_update_integrates by blast
  then show ?thesis using SCENE_Game w5
    by (simp add: update_def PhysicsObject_update_fields)
qed

lemma step_momentOfAcceleration:
  assumes "momentOfAcceleration (PLAYER w) = Victor 0 0" and "step e w = Some w'"
  shows "momentOfAcceleration (PLAYER w') = Victor 0 0"
proof (cases e)
  case (Frame ms)
  then show ?thesis using assms update_momentOfAcceleration[of w ms] by auto
next
  case (PointerMove cx cy)
  then show ?thesis using assms by (auto simp add: onpointermove_def Let_def)
next
  case (PointerDown cx cy)
  then show ?thesis using assms
    by (auto simp add: onpointerdown_def onAim_def playSound_def Let_def)
next
  case (PointerUp cx cy)
  then show ?thesis using assms
    by (auto simp add: onpointerup_def onFling_def exitAiming_def playSound_def
        setFlingAmount_def Let_def)
next
  case PlayClicked
  then show ?thesis using assms step_PlayClicked_player[of w w']
    by (simp add: Player_reset_def setFlingAmount_def Let_def)
qed

lemma run_momentOfAcceleration:
  "momentOfAcceleration (PLAYER w) = Victor 0 0 \<Longrightarrow> run es w = Some w' \<Longrightarrow>
   momentOfAcceleration (PLAYER w') = Victor 0 0"
proof (induction es arbitrary: w)
  case Nil
  then show ?case by simp
next
  case (Cons e es)
  from Cons.prems(2) obtain w1 where w1: "step e w = Some w1" and r: "run es w1 = Some w'"
    by (cases "step e w") simp_all
  have "momentOfAcceleration (PLAYER w1) = Victor 0 0"
    using Cons.prems(1) w1 by (rule step_momentOfAcceleration)
  then show ?case using r by (rule Cons.IH)
qed

text \<open>
  C9. Gravity is scaled by \<open>timeSpeed\<close> twice. In a frame that starts with no pending
  acceleration, \<open>Player.update()\<close> hands the integration step a pending acceleration of
  \<open>GRAVITY * timeSpeed\<close>, and the step multiplies it by \<open>timeSpeed\<close> again: the vertical
  velocity gains \<open>GRAVITY * timeSpeed\<^sup>2\<close> before friction, on top of what the state machine
  left, and the position advances by that velocity times \<open>timeSpeed\<close>. For a
  \<open>timeSpeed\<close> between 0 and 1 the gain is less than \<open>GRAVITY * timeSpeed\<close>, the gain of
  gravity scaled once. Every frame starts with no pending acceleration: the starting world
  has none, and no sequence of events leaves any.
\<close>

theorem gravity_scaled_twice:
  "(momentOfAcceleration (PLAYER w) = Victor 0 0 \<longrightarrow>
      (\<exists>p. PLAYER (Player_update w) = PhysicsObject_update (timeSpeed w) p
            \<and> momentOfAcceleration p = multiplyScalar GRAVITY (timeSpeed w)
            \<and> vy (velocity p) = vy (velocity (PLAYER (Player_fsm w)))
            \<and> vy (vectorPosition p) = vy (vectorPosition (PLAYER (Player_fsm w))))
    \<and> vy (velocity (PLAYER (Player_update w))) =
        (vy (velocity (PLAYER (Player_fsm w))) + vy GRAVITY * timeSpeed w * timeSpeed w)
          * (1 - FRICTION * timeSpeed w)
    \<and> vy (vectorPosition (PLAYER (Player_update w))) =
        vy (vectorPosition (PLAYER (Player_fsm w)))
          + (vy (velocity (PLAYER (Player_fsm w))) + vy GRAVITY * timeSpeed w * timeSpeed w)
              * timeSpeed w)
   \<and> (0 < timeSpeed w \<and> timeSpeed w < 1 \<longrightarrow>
         vy GRAVITY * timeSpeed w * timeSpeed w < vy GRAVITY * timeSpeed w)
   \<and> momentOfAcceleration (PLAYER (startWorld clientPosition rnd)) = Victor 0 0
   \<and> (momentOfAcceleration (PLAYER w0) = Victor 0 0 \<and> run es w0 = Some w \<longrightarrow>
         momentOfAcceleration (PLAYER w) = Victor 0 0)"
proof -
  obtain p where p: "PLAYER (Player_update w) = PhysicsObject_update (timeSpeed w) p"
     "momentOfAcceleration p =
         add (momentOfAcceleration (PLAYER w)) (multiplyScalar GRAVITY (timeSpeed w))"
     "vy (velocity p) = vy (velocity (PLAYER (Player_fsm w)))"
     "vy (vectorPosition p) = vy (vectorPosition (PLAYER (Player_fsm w)))"
    using Player_update_integrates by blast
  have acc: "momentOfAcceleration p = multiplyScalar GRAVITY (timeSpeed w)"
    if "momentOfAcceleration (PLAYER w) = Victor 0 0"
    using p(2) that by (simp add: add_def multiplyScalar_def)
  have 1: "\<exists>p. PLAYER (Player_update w) = PhysicsObject_update (timeSpeed w) p
            \<and> momentOfAcceleration p = multiplyScalar GRAVITY (timeSpeed w)
            \<and> vy (velocity p) = vy (velocity (PLAYER (Player_fsm w)))
            \<and> vy (vectorPosition p) = vy (vectorPosition (PLAYER (Player_fsm w)))"
    if "momentOfAcceleration (PLAYER w) = Victor 0 0"
    using p(1,3,4) acc[OF that] by blast
  have 2: "vy (velocity (PLAYER (Player_update w))) =
        (vy (velocity (PLAYER (Player_fsm w))) + vy GRAVITY * timeSpeed w * timeSpeed w)
          * (1 - FRICTION * timeSpeed w)"
    if "momentOfAcceleration (PLAYER w) = Victor 0 0"
    by (simp add: p(1,3) acc[OF that] PhysicsObject_update_fields multiplyScalar_def
        FRICTION_def)
  have 3: "vy (vectorPosition (PLAYER (Player_update w))) =
        vy (vectorPosition (PLAYER (Player_fsm w)))
          + (vy (velocity (PLAYER (Player_fsm w))) + vy GRAVITY * timeSpeed w * timeSpeed w)
              * timeSpeed w"
    if "momentOfAcceleration (PLAYER w) = Victor 0 0"
    by (simp add: p(1,3,4) acc[OF that] PhysicsObject_update_fields multiplyScalar_def)
  have 4: "0 < timeSpeed w \<and> timeSpeed w < 1 \<longrightarrow>
          vy GRAVITY * timeSpeed w * timeSpeed w < vy GRAVITY * timeSpeed w"
    by (simp add: GRAVITY_def)
  have 5: "momentOfAcceleration (PLAYER (startWorld clientPosition rnd)) = Victor 0 0"
    by (simp add: start_defs)
  show ?thesis using 1 2 3 4 5 run_momentOfAcceleration[of w0 es w] by blast
qed

theorem gravity_scaled_twice_witness:
  "momentOfAcceleration (PLAYER slowTutorialWorld) = Victor 0 0
   \<and> timeSpeed slowTutorialWorld = 1 / 2
   \<and> velocity (PLAYER (Player_fsm slowTutorialWorld)) = Victor 0 0
   \<and> vy (velocity (PLAYER (Player_update slowTutorialWorld))) = 13750
   \<and> vy (vectorPosition (PLAYER (Player_update slowTutorialWorld))) = 12500
   \<and> vy GRAVITY * timeSpeed slowTutorialWorld * timeSpeed slowTutorialWorld = 25000
   \<and> vy GRAVITY * timeSpeed slowTutorialWorld = 50000
   \<and> run [Frame 16, PointerDown 100 100] slowTutorialWorld
       = Some (onpointerdown 100 100 (update 16 slowTutorialWorld))
   \<and> momentOfAcceleration (PLAYER (onpointerdown 100 100 (update 16 slowTutorialWorld)))
       = Victor 0 0"
proof -
  have a: "momentOfAcceleration (PLAYER slowTutorialWorld) = Victor 0 0"
    by (simp add: slowTutorialWorld_def tutorialWorld_def Player_reset_def setFlingAmount_def
        flyingPlayer_def newPlayer_def Let_def)
  have t: "timeSpeed slowTutorialWorld = 1 / 2" by (simp add: slowTutorialWorld_def)
  have f: "PLAYER (Player_fsm slowTutorialWorld) = Player_reset flyingPlayer"
    by (simp add: Player_fsm_def whenTutorial_def slowTutorialWorld_def tutorialWorld_def
        Player_reset_fields)
  have v: "velocity (Player_reset flyingPlayer) = Victor 0 0"
     "vectorPosition (Player_reset flyingPlayer) = Victor 250 0"
    by (simp_all add: Player_reset_def setFlingAmount_def Let_def const_defs)
  have r: "run [Frame 16, PointerDown 100 100] slowTutorialWorld
       = Some (onpointerdown 100 100 (update 16 slowTutorialWorld))"
    by simp
  show ?thesis
    using gravity_scaled_twice[of slowTutorialWorld _ _ slowTutorialWorld "[]"]
      gravity_scaled_twice[of "onpointerdown 100 100 (update 16 slowTutorialWorld)" _ _
        slowTutorialWorld "[Frame 16, PointerDown 100 100]"]
    by (simp add: a t f v GRAVITY_def FRICTION_def)
qed

section \<open>Collisions with the obstacles\<close>

lemma Player_isColliding_cong:
  "vectorPosition p' = vectorPosition p \<Longrightarrow> colliderRadius p' = colliderRadius p \<Longrightarrow>
   Player_isColliding p' = Player_isColliding p"
  by (rule ext) (simp add: Player_isColliding_def)

lemma checkCollisions_orb_isColliding:
  "Player_isColliding (PLAYER (snd (checkCollisions_orb x w))) = Player_isColliding (PLAYER w)"
  by (rule Player_isColliding_cong) (simp_all add: snd_checkCollisions_orb)

lemma checkCollisions_spike_isColliding:
  "Player_isColliding (PLAYER (snd (checkCollisions_spike x w))) = Player_isColliding (PLAYER w)"
  by (rule Player_isColliding_cong) (simp_all add: snd_checkCollisions_spike)

lemma forEach_orb_isColliding:
  "Player_isColliding (PLAYER (snd (forEach checkCollisions_orb xs w)))
     = Player_isColliding (PLAYER w)"
  by (rule forEach_invariant[where
        P = "\<lambda>w'. Player_isColliding (PLAYER w') = Player_isColliding (PLAYER w)"])
     (simp_all add: checkCollisions_orb_isColliding)

lemma forEach_orb_played:
  "played (snd (forEach checkCollisions_orb xs w)) =
     played w @ replicate (length (filter (Player_isColliding (PLAYER w)) xs)) SFX_Orb"
proof (induction xs arbitrary: w)
  case Nil
  then show ?case by simp
next
  case (Cons x xs)
  have pl: "played (snd (checkCollisions_orb x w)) =
      played w @ (if Player_isColliding (PLAYER w) x then [SFX_Orb] else [])"
    by (simp add: snd_checkCollisions_orb)
  show ?case
    using Cons.IH[of "snd (checkCollisions_orb x w)"]
    by (simp add: split_beta checkCollisions_orb_isColliding pl)
qed

lemma forEach_spike_played:
  "played (snd (forEach checkCollisions_spike xs w)) =
     played w @ concat (replicate (length (filter (Player_isColliding (PLAYER w)) xs))
                          [SFX_Orb, SFX_Spike])"
proof (induction xs arbitrary: w)
  case Nil
  then show ?case by simp
next
  case (Cons x xs)
  have pl: "played (snd (checkCollisions_spike x w)) =
      played w @ (if Player_isColliding (PLAYER w) x then [SFX_Orb, SFX_Spike] else [])"
    by (simp add: snd_checkCollisions_spike)
  show ?case
    using Cons.IH[of "snd (checkCollisions_spike x w)"]
    by (simp add: split_beta checkCollisions_spike_isColliding pl)
qed

lemma forEach_orb_flings:
  "0 \<le> flings (PLAYER w) \<Longrightarrow>
   flings (PLAYER (snd (forEach checkCollisions_orb xs w))) =
     flings (PLAYER w) + int (length (filter (Player_isColliding (PLAYER w)) xs))"
proof (induction xs arbitrary: w)
  case Nil
  then show ?case by simp
next
  case (Cons x xs)
  have fl: "flings (PLAYER (snd (checkCollisions_orb x w))) =
      flings (PLAYER w) + (if Player_isColliding (PLAYER w) x then 1 else 0)"
    using Cons.prems by (simp add: snd_checkCollisions_orb)
  then have "0 \<le> flings (PLAYER (snd (checkCollisions_orb x w)))" using Cons.prems by simp
  then show ?case
    using Cons.IH[of "snd (checkCollisions_orb x w)"]
    by (simp add: split_beta checkCollisions_orb_isColliding fl)
qed

lemma forEach_orb_SPIKES:
  "SPIKES (snd (forEach checkCollisions_orb xs w)) = SPIKES w"
  by (rule forEach_invariant[where P = "\<lambda>w'. SPIKES w' = SPIKES w"])
     (simp_all add: snd_checkCollisions_orb)

lemma checkCollisions_played:
  "played (checkCollisions w) =
     played w
     @ replicate (length (filter (Player_isColliding (PLAYER w)) (ORBS w))) SFX_Orb
     @ concat (replicate (length (filter (Player_isColliding (PLAYER w)) (SPIKES w)))
                 [SFX_Orb, SFX_Spike])"
proof -
  define r1 where "r1 = forEach checkCollisions_orb (ORBS w) w"
  have "played (checkCollisions w) =
      played (snd (forEach checkCollisions_spike (SPIKES (snd r1)) ((snd r1)\<lparr>ORBS := fst r1\<rparr>)))"
    by (simp add: checkCollisions_def split_beta r1_def)
  also have "\<dots> = played (snd r1) @ concat (replicate
       (length (filter (Player_isColliding (PLAYER (snd r1))) (SPIKES (snd r1))))
       [SFX_Orb, SFX_Spike])"
    by (simp add: forEach_spike_played)
  finally show ?thesis
    by (simp add: r1_def forEach_orb_played forEach_orb_isColliding forEach_orb_SPIKES)
qed

lemma checkCollisions_orb_hit:
  assumes "Player_isColliding (PLAYER w) orb"
  shows "fst (checkCollisions_orb orb w) =
     setScale (randomSource w (Suc (Suc (randomCount w))) * (1 - 0.5) + 0.5)
        (orb\<lparr>vectorPosition :=
           Victor (randomSource w (randomCount w)
                     * (rect_right (nextCameraBound (CAMERA w)) - rect_x (nextCameraBound (CAMERA w)))
                   + rect_x (nextCameraBound (CAMERA w)))
                  (randomSource w (Suc (randomCount w))
                     * (rect_bottom (nextCameraBound (CAMERA w)) - rect_y (nextCameraBound (CAMERA w)))
                   + rect_y (nextCameraBound (CAMERA w)))\<rparr>)"
  using assms
  by (simp add: checkCollisions_orb_def Let_def Orb_destroy_def Obstacle_destroy_def
      Orb_respawn_def Obstacle_respawn_eq)

lemma within_range:
  fixes r :: real
  assumes "0 \<le> r" "r \<le> 1" "0 \<le> d"
  shows "a \<le> r * d + a" "r * d + a \<le> a + d"
proof -
  show "a \<le> r * d + a" using assms by simp
  have "r * d \<le> 1 * d" using assms by (intro mult_right_mono) simp_all
  then show "r * d + a \<le> a + d" by simp
qed

lemma fst_Orb_destroy: "fst (Orb_destroy b ob w) = fst (Orb_respawn b ob w)"
  by (simp add: Orb_destroy_def Obstacle_destroy_def split_beta)

lemma fst_Orb_respawn:
  "fst (Orb_respawn b ob w) =
     setScale (randomSource w (Suc (Suc (randomCount w))) * (1 - 0.5) + 0.5)
        (ob\<lparr>vectorPosition :=
           Victor (randomSource w (randomCount w) * (rect_right b - rect_x b) + rect_x b)
                  (randomSource w (Suc (randomCount w)) * (rect_bottom b - rect_y b) + rect_y b)\<rparr>)"
  by (simp add: Orb_respawn_def Obstacle_respawn_eq)

lemma fst_checkCollisions_orb:
  "fst (checkCollisions_orb orb w) =
     (if Player_isColliding (PLAYER w) orb
      then fst (Orb_respawn (nextCameraBound (CAMERA w)) orb w) else orb)"
  by (simp add: checkCollisions_orb_def Let_def fst_Orb_destroy fst_Orb_respawn)

lemma length_forEach: "length (fst (forEach body xs w)) = length xs"
  by (induction xs arbitrary: w) (simp_all add: split_beta)

lemma forEach_orb_nth:
  "i < length xs \<Longrightarrow>
   fst (forEach checkCollisions_orb xs w) ! i =
     (if Player_isColliding (PLAYER w) (xs ! i)
      then fst (Orb_respawn (nextCameraBound (CAMERA w)) (xs ! i)
             (w\<lparr>randomCount := randomCount w
                  + 3 * length (filter (Player_isColliding (PLAYER w)) (take i xs))\<rparr>))
      else xs ! i)"
proof (induction xs arbitrary: w i)
  case Nil
  then show ?case by simp
next
  case (Cons x xs)
  show ?case
  proof (cases i)
    case 0
    then show ?thesis by (simp add: split_beta fst_checkCollisions_orb fst_Orb_respawn)
  next
    case (Suc j)
    define w1 where "w1 = snd (checkCollisions_orb x w)"
    have j: "j < length xs" using Cons.prems Suc by simp
    have P: "Player_isColliding (PLAYER w1) = Player_isColliding (PLAYER w)"
      unfolding w1_def by (rule checkCollisions_orb_isColliding)
    have f: "CAMERA w1 = CAMERA w" "randomSource w1 = randomSource w"
      "randomCount w1 = randomCount w + (if Player_isColliding (PLAYER w) x then 3 else 0)"
      unfolding w1_def by (simp_all add: snd_checkCollisions_orb)
    have "fst (forEach checkCollisions_orb (x # xs) w) ! i
        = fst (forEach checkCollisions_orb xs w1) ! j"
      by (simp add: split_beta Suc w1_def)
    also have "\<dots> = (if Player_isColliding (PLAYER w1) (xs ! j)
      then fst (Orb_respawn (nextCameraBound (CAMERA w1)) (xs ! j)
             (w1\<lparr>randomCount := randomCount w1
                  + 3 * length (filter (Player_isColliding (PLAYER w1)) (take j xs))\<rparr>))
      else xs ! j)" by (rule Cons.IH[OF j])
    finally show ?thesis
      by (simp add: P f Suc fst_Orb_respawn ac_simps)
  qed
qed

lemma forEach_spike_ORBS:
  "ORBS (snd (forEach checkCollisions_spike xs w)) = ORBS w"
  by (rule forEach_invariant[where P = "\<lambda>w'. ORBS w' = ORBS w"])
     (simp_all add: snd_checkCollisions_spike)

lemma ORBS_checkCollisions:
  "ORBS (checkCollisions w) = fst (forEach checkCollisions_orb (ORBS w) w)"
  by (simp add: checkCollisions_def split_beta forEach_spike_ORBS)

lemma forEach_orb_velocity:
  "velocity (PLAYER (snd (forEach checkCollisions_orb xs w))) =
     ((\<lambda>v. Victor (- vx v) (- \<bar>vy v\<bar> * ORB_BOOST_MULTIPLIER))
        ^^ length (filter (Player_isColliding (PLAYER w)) xs)) (velocity (PLAYER w))"
proof (induction xs arbitrary: w)
  case Nil
  then show ?case by simp
next
  case (Cons x xs)
  define f where "f = (\<lambda>v. Victor (- vx v) (- \<bar>vy v\<bar> * ORB_BOOST_MULTIPLIER))"
  define w1 where "w1 = snd (checkCollisions_orb x w)"
  define k where "k = length (filter (Player_isColliding (PLAYER w)) xs)"
  have v: "velocity (PLAYER w1) =
      (if Player_isColliding (PLAYER w) x then f (velocity (PLAYER w)) else velocity (PLAYER w))"
    by (simp add: w1_def f_def snd_checkCollisions_orb)
  have "velocity (PLAYER (snd (forEach checkCollisions_orb (x # xs) w)))
      = velocity (PLAYER (snd (forEach checkCollisions_orb xs w1)))"
    by (simp add: split_beta w1_def)
  also have "\<dots> = (f ^^ k) (velocity (PLAYER w1))"
    unfolding f_def k_def using Cons.IH[of w1]
    by (simp add: w1_def checkCollisions_orb_isColliding)
  also have "\<dots> = (f ^^ length (filter (Player_isColliding (PLAYER w)) (x # xs)))
      (velocity (PLAYER w))"
    by (simp add: v k_def funpow_swap1)
  finally show ?case unfolding f_def .
qed

lemma forEach_spike_velocity:
  "velocity (PLAYER (snd (forEach checkCollisions_spike xs w))) =
     ((\<lambda>v. multiplyScalar v (- 0.5))
        ^^ length (filter (Player_isColliding (PLAYER w)) xs)) (velocity (PLAYER w))"
proof (induction xs arbitrary: w)
  case Nil
  then show ?case by simp
next
  case (Cons x xs)
  define f where "f = (\<lambda>v. multiplyScalar v (- 0.5))"
  define w1 where "w1 = snd (checkCollisions_spike x w)"
  define k where "k = length (filter (Player_isColliding (PLAYER w)) xs)"
  have v: "velocity (PLAYER w1) =
      (if Player_isColliding (PLAYER w) x then f (velocity (PLAYER w)) else velocity (PLAYER w))"
    by (simp add: w1_def f_def snd_checkCollisions_spike)
  have "velocity (PLAYER (snd (forEach checkCollisions_spike (x # xs) w)))
      = velocity (PLAYER (snd (forEach checkCollisions_spike xs w1)))"
    by (simp add: split_beta w1_def)
  also have "\<dots> = (f ^^ k) (velocity (PLAYER w1))"
    unfolding f_def k_def using Cons.IH[of w1]
    by (simp add: w1_def checkCollisions_spike_isColliding)
  also have "\<dots> = (f ^^ length (filter (Player_isColliding (PLAYER w)) (x # xs)))
      (velocity (PLAYER w))"
    by (simp add: v k_def funpow_swap1)
  finally show ?case unfolding f_def .
qed

lemma forEach_spike_flings:
  "0 \<le> flings (PLAYER w) \<Longrightarrow>
   flings (PLAYER (snd (forEach checkCollisions_spike xs w))) =
     max 0 (flings (PLAYER w) - int (length (filter (Player_isColliding (PLAYER w)) xs)))"
proof (induction xs arbitrary: w)
  case Nil
  then show ?case by simp
next
  case (Cons x xs)
  have fl: "flings (PLAYER (snd (checkCollisions_spike x w))) =
      (if Player_isColliding (PLAYER w) x then max 0 (flings (PLAYER w) - 1) else flings (PLAYER w))"
    by (simp add: snd_checkCollisions_spike)
  then have "0 \<le> flings (PLAYER (snd (checkCollisions_spike x w)))" using Cons.prems by simp
  then show ?case
    using Cons.IH[of "snd (checkCollisions_spike x w)"] Cons.prems
    by (auto simp add: split_beta checkCollisions_spike_isColliding fl max_def)
qed

lemma checkCollisions_split:
  "PLAYER (checkCollisions w) =
     PLAYER (snd (forEach checkCollisions_spike (SPIKES w)
        ((snd (forEach checkCollisions_orb (ORBS w) w))
           \<lparr>ORBS := fst (forEach checkCollisions_orb (ORBS w) w)\<rparr>)))"
  by (simp add: checkCollisions_def split_beta forEach_orb_SPIKES)

lemma checkCollisions_velocity:
  "velocity (PLAYER (checkCollisions w)) =
     ((\<lambda>v. multiplyScalar v (- 0.5))
        ^^ length (filter (Player_isColliding (PLAYER w)) (SPIKES w)))
       (((\<lambda>v. Victor (- vx v) (- \<bar>vy v\<bar> * ORB_BOOST_MULTIPLIER))
          ^^ length (filter (Player_isColliding (PLAYER w)) (ORBS w))) (velocity (PLAYER w)))"
  by (simp add: checkCollisions_split forEach_spike_velocity forEach_orb_velocity
      forEach_orb_isColliding)

lemma checkCollisions_flings_count:
  assumes "0 \<le> flings (PLAYER w)"
  shows "flings (PLAYER (checkCollisions w)) =
     max 0 (flings (PLAYER w)
            + int (length (filter (Player_isColliding (PLAYER w)) (ORBS w)))
            - int (length (filter (Player_isColliding (PLAYER w)) (SPIKES w))))"
proof -
  define w1 where "w1 = snd (forEach checkCollisions_orb (ORBS w) w)"
  have 1: "flings (PLAYER w1) =
      flings (PLAYER w) + int (length (filter (Player_isColliding (PLAYER w)) (ORBS w)))"
    unfolding w1_def using assms by (rule forEach_orb_flings)
  then have 0: "0 \<le> flings (PLAYER (w1\<lparr>ORBS := os\<rparr>))" for os using assms by simp
  show ?thesis
    using forEach_spike_flings[OF 0, of "SPIKES w"]
    by (simp add: checkCollisions_split w1_def[symmetric] 1)
       (simp add: w1_def forEach_orb_isColliding)
qed

lemma Orb_respawn_inside:
  assumes "0 \<le> randomSource w (randomCount w)" "randomSource w (randomCount w) \<le> 1"
      "0 \<le> randomSource w (Suc (randomCount w))" "randomSource w (Suc (randomCount w)) \<le> 1"
      "0 \<le> rect_width b" "0 \<le> rect_height b"
  shows "rect_left b \<le> vx (vectorPosition (fst (Orb_respawn b ob w)))
       \<and> vx (vectorPosition (fst (Orb_respawn b ob w))) \<le> rect_right b
       \<and> rect_top b \<le> vy (vectorPosition (fst (Orb_respawn b ob w)))
       \<and> vy (vectorPosition (fst (Orb_respawn b ob w))) \<le> rect_bottom b"
  using within_range[OF assms(1,2,5)] within_range[OF assms(3,4,6)]
  by (simp add: fst_Orb_respawn setScale_def rect_defs)

text \<open>
  C6. When the player overlaps an orb in the collision check, with a fling count of at
  least 0: the velocity becomes \<open>(-x, -|y| * 1.2)\<close>, the fling count grows by one, the orb
  sound is played, and the orb is placed at a random point of the camera's next bound
  (inside it, for random numbers between 0 and 1 and a bound of non-negative size).
  \<open>checkCollisions\<close> handles every orb, then every spike, none skipped: its sound log gains
  one orb sound per overlapping orb, then an orb and a spike sound per overlapping spike,
  and after the orbs the fling count has grown by the number of overlapping orbs. The
  check is what the state machine runs for a player \<open>Idle\<close> or \<open>Aiming\<close> whom the wave has
  not reached.

  Of the method as a whole, with \<open>k\<close> overlapping orbs and \<open>m\<close> overlapping spikes: the
  velocity it leaves is the old one after \<open>k\<close> orb boosts \<open>(-x, -|y| * 1.2)\<close> followed by
  \<open>m\<close> spike knock-backs \<open>* -0.5\<close>; the fling count it leaves is \<open>max 0 (flings + k - m)\<close>;
  the list of orbs keeps its length, every overlapping orb is replaced by its respawn in
  the camera's next bound, drawn with the next three random numbers in turn (so it lies
  inside that bound), and every other orb is left as it was. With one overlapping orb and
  no overlapping spike the method leaves velocity \<open>(-x, -|y| * 1.2)\<close> and one fling more.
\<close>

theorem orb_reaction:
  "(Player_isColliding (PLAYER w) orb \<and> 0 \<le> flings (PLAYER w) \<longrightarrow>
      velocity (PLAYER (snd (checkCollisions_orb orb w)))
        = Victor (- vx (velocity (PLAYER w))) (- \<bar>vy (velocity (PLAYER w))\<bar> * 1.2)
    \<and> flings (PLAYER (snd (checkCollisions_orb orb w))) = flings (PLAYER w) + 1
    \<and> played (snd (checkCollisions_orb orb w)) = played w @ [SFX_Orb]
    \<and> vectorPosition (fst (checkCollisions_orb orb w))
        = Victor (randomSource w (randomCount w) * rect_width (nextCameraBound (CAMERA w))
                    + rect_x (nextCameraBound (CAMERA w)))
                 (randomSource w (Suc (randomCount w)) * rect_height (nextCameraBound (CAMERA w))
                    + rect_y (nextCameraBound (CAMERA w)))
    \<and> (0 \<le> randomSource w (randomCount w) \<and> randomSource w (randomCount w) \<le> 1
        \<and> 0 \<le> randomSource w (Suc (randomCount w)) \<and> randomSource w (Suc (randomCount w)) \<le> 1
        \<and> 0 \<le> rect_width (nextCameraBound (CAMERA w))
        \<and> 0 \<le> rect_height (nextCameraBound (CAMERA w)) \<longrightarrow>
          rect_left (nextCameraBound (CAMERA w)) \<le> vx (vectorPosition (fst (checkCollisions_orb orb w)))
        \<and> vx (vectorPosition (fst (checkCollisions_orb orb w))) \<le> rect_right (nextCameraBound (CAMERA w))
        \<and> rect_top (nextCameraBound (CAMERA w)) \<le> vy (vectorPosition (fst (checkCollisions_orb orb w)))
        \<and> vy (vectorPosition (fst (checkCollisions_orb orb w))) \<le> rect_bottom (nextCameraBound (CAMERA w))))
   \<and> played (checkCollisions w) =
        played w
        @ replicate (length (filter (Player_isColliding (PLAYER w)) (ORBS w))) SFX_Orb
        @ concat (replicate (length (filter (Player_isColliding (PLAYER w)) (SPIKES w)))
                    [SFX_Orb, SFX_Spike])
   \<and> (0 \<le> flings (PLAYER w) \<longrightarrow>
        flings (PLAYER (snd (forEach checkCollisions_orb (ORBS w) w)))
          = flings (PLAYER w) + int (length (filter (Player_isColliding (PLAYER w)) (ORBS w))))
   \<and> (playerState (PLAYER w) = Idle \<and> \<not> Wave_isColliding (WAVE w) (vectorPosition (PLAYER w)) \<longrightarrow>
        Player_fsm w = checkCollisions w)
   \<and> (playerState (PLAYER w) = Aiming \<and> \<not> Wave_isColliding (WAVE w) (vectorPosition (PLAYER w)) \<longrightarrow>
        Player_fsm w = whenAim (checkCollisions w))
   \<and> velocity (PLAYER (checkCollisions w)) =
        ((\<lambda>v. multiplyScalar v (- 0.5))
           ^^ length (filter (Player_isColliding (PLAYER w)) (SPIKES w)))
          (((\<lambda>v. Victor (- vx v) (- \<bar>vy v\<bar> * 1.2))
             ^^ length (filter (Player_isColliding (PLAYER w)) (ORBS w))) (velocity (PLAYER w)))
   \<and> (0 \<le> flings (PLAYER w) \<longrightarrow>
        flings (PLAYER (checkCollisions w)) =
          max 0 (flings (PLAYER w)
                 + int (length (filter (Player_isColliding (PLAYER w)) (ORBS w)))
                 - int (length (filter (Player_isColliding (PLAYER w)) (SPIKES w)))))
   \<and> length (ORBS (checkCollisions w)) = length (ORBS w)
   \<and> (\<forall>i<length (ORBS w).
        ORBS (checkCollisions w) ! i =
          (if Player_isColliding (PLAYER w) (ORBS w ! i)
           then fst (Orb_respawn (nextCameraBound (CAMERA w)) (ORBS w ! i)
                  (w\<lparr>randomCount := randomCount w
                       + 3 * length (filter (Player_isColliding (PLAYER w)) (take i (ORBS w)))\<rparr>))
           else ORBS w ! i))
   \<and> ((\<forall>n. 0 \<le> randomSource w n \<and> randomSource w n < 1)
        \<and> 0 \<le> rect_width (nextCameraBound (CAMERA w))
        \<and> 0 \<le> rect_height (nextCameraBound (CAMERA w)) \<longrightarrow>
        (\<forall>i<length (ORBS w). Player_isColliding (PLAYER w) (ORBS w ! i) \<longrightarrow>
            rect_left (nextCameraBound (CAMERA w)) \<le> vx (vectorPosition (ORBS (checkCollisions w) ! i))
          \<and> vx (vectorPosition (ORBS (checkCollisions w) ! i)) \<le> rect_right (nextCameraBound (CAMERA w))
          \<and> rect_top (nextCameraBound (CAMERA w)) \<le> vy (vectorPosition (ORBS (checkCollisions w) ! i))
          \<and> vy (vectorPosition (ORBS (checkCollisions w) ! i)) \<le> rect_bottom (nextCameraBound (CAMERA w))))
   \<and> (0 \<le> flings (PLAYER w)
        \<and> length (filter (Player_isColliding (PLAYER w)) (ORBS w)) = 1
        \<and> filter (Player_isColliding (PLAYER w)) (SPIKES w) = [] \<longrightarrow>
          velocity (PLAYER (checkCollisions w))
            = Victor (- vx (velocity (PLAYER w))) (- \<bar>vy (velocity (PLAYER w))\<bar> * 1.2)
        \<and> flings (PLAYER (checkCollisions w)) = flings (PLAYER w) + 1)"
proof -
  have hit: "velocity (PLAYER (snd (checkCollisions_orb orb w)))
        = Victor (- vx (velocity (PLAYER w))) (- \<bar>vy (velocity (PLAYER w))\<bar> * 1.2)
    \<and> flings (PLAYER (snd (checkCollisions_orb orb w))) = flings (PLAYER w) + 1
    \<and> played (snd (checkCollisions_orb orb w)) = played w @ [SFX_Orb]"
    if "Player_isColliding (PLAYER w) orb" "0 \<le> flings (PLAYER w)"
    using that by (simp add: snd_checkCollisions_orb ORB_BOOST_MULTIPLIER_def)
  have pos: "vectorPosition (fst (checkCollisions_orb orb w))
        = Victor (randomSource w (randomCount w) * rect_width (nextCameraBound (CAMERA w))
                    + rect_x (nextCameraBound (CAMERA w)))
                 (randomSource w (Suc (randomCount w)) * rect_height (nextCameraBound (CAMERA w))
                    + rect_y (nextCameraBound (CAMERA w)))"
    if "Player_isColliding (PLAYER w) orb"
    by (simp add: checkCollisions_orb_hit[OF that] setScale_def rect_defs)
  have inside: "rect_left (nextCameraBound (CAMERA w)) \<le> vx (vectorPosition (fst (checkCollisions_orb orb w)))
        \<and> vx (vectorPosition (fst (checkCollisions_orb orb w))) \<le> rect_right (nextCameraBound (CAMERA w))
        \<and> rect_top (nextCameraBound (CAMERA w)) \<le> vy (vectorPosition (fst (checkCollisions_orb orb w)))
        \<and> vy (vectorPosition (fst (checkCollisions_orb orb w))) \<le> rect_bottom (nextCameraBound (CAMERA w))"
    if "Player_isColliding (PLAYER w) orb"
      "0 \<le> randomSource w (randomCount w)" "randomSource w (randomCount w) \<le> 1"
      "0 \<le> randomSource w (Suc (randomCount w))" "randomSource w (Suc (randomCount w)) \<le> 1"
      "0 \<le> rect_width (nextCameraBound (CAMERA w))" "0 \<le> rect_height (nextCameraBound (CAMERA w))"
    using within_range[OF that(2,3,6)] within_range[OF that(4,5,7)]
    by (simp add: pos[OF that(1)] rect_defs)
  have idle: "Player_fsm w = checkCollisions w"
    if "playerState (PLAYER w) = Idle" "\<not> Wave_isColliding (WAVE w) (vectorPosition (PLAYER w))"
    using that by (simp add: Player_fsm_def whenAlive_def)
  have aiming: "Player_fsm w = whenAim (checkCollisions w)"
    if "playerState (PLAYER w) = Aiming" "\<not> Wave_isColliding (WAVE w) (vectorPosition (PLAYER w))"
    using that by (simp add: Player_fsm_def whenAlive_def)
  have vel: "velocity (PLAYER (checkCollisions w)) =
        ((\<lambda>v. multiplyScalar v (- 0.5))
           ^^ length (filter (Player_isColliding (PLAYER w)) (SPIKES w)))
          (((\<lambda>v. Victor (- vx v) (- \<bar>vy v\<bar> * 1.2))
             ^^ length (filter (Player_isColliding (PLAYER w)) (ORBS w))) (velocity (PLAYER w)))"
    using checkCollisions_velocity[of w] by (simp add: ORB_BOOST_MULTIPLIER_def)
  have nth: "ORBS (checkCollisions w) ! i =
          (if Player_isColliding (PLAYER w) (ORBS w ! i)
           then fst (Orb_respawn (nextCameraBound (CAMERA w)) (ORBS w ! i)
                  (w\<lparr>randomCount := randomCount w
                       + 3 * length (filter (Player_isColliding (PLAYER w)) (take i (ORBS w)))\<rparr>))
           else ORBS w ! i)" if "i < length (ORBS w)" for i
    unfolding ORBS_checkCollisions by (rule forEach_orb_nth[OF that])
  have len: "length (ORBS (checkCollisions w)) = length (ORBS w)"
    by (simp add: ORBS_checkCollisions length_forEach)
  have within: "rect_left (nextCameraBound (CAMERA w)) \<le> vx (vectorPosition (ORBS (checkCollisions w) ! i))
          \<and> vx (vectorPosition (ORBS (checkCollisions w) ! i)) \<le> rect_right (nextCameraBound (CAMERA w))
          \<and> rect_top (nextCameraBound (CAMERA w)) \<le> vy (vectorPosition (ORBS (checkCollisions w) ! i))
          \<and> vy (vectorPosition (ORBS (checkCollisions w) ! i)) \<le> rect_bottom (nextCameraBound (CAMERA w))"
    if r: "\<forall>n. 0 \<le> randomSource w n \<and> randomSource w n < 1"
      and b: "0 \<le> rect_width (nextCameraBound (CAMERA w))"
        "0 \<le> rect_height (nextCameraBound (CAMERA w))"
      and i: "i < length (ORBS w)" "Player_isColliding (PLAYER w) (ORBS w ! i)" for i
  proof -
    define w' where "w' = w\<lparr>randomCount := randomCount w
        + 3 * length (filter (Player_isColliding (PLAYER w)) (take i (ORBS w)))\<rparr>"
    have rs: "0 \<le> randomSource w' n" "randomSource w' n \<le> 1" for n
      using r by (simp_all add: w'_def less_imp_le)
    show ?thesis
      using Orb_respawn_inside[of w' "nextCameraBound (CAMERA w)" "ORBS w ! i", OF rs rs b]
      by (simp add: nth[OF i(1)] i(2) w'_def)
  qed
  have one: "velocity (PLAYER (checkCollisions w))
            = Victor (- vx (velocity (PLAYER w))) (- \<bar>vy (velocity (PLAYER w))\<bar> * 1.2)
        \<and> flings (PLAYER (checkCollisions w)) = flings (PLAYER w) + 1"
    if "0 \<le> flings (PLAYER w)" "length (filter (Player_isColliding (PLAYER w)) (ORBS w)) = 1"
      "filter (Player_isColliding (PLAYER w)) (SPIKES w) = []"
    using that checkCollisions_flings_count[of w] by (simp add: vel)
  have c1: "Player_isColliding (PLAYER w) orb \<and> 0 \<le> flings (PLAYER w) \<longrightarrow>
      velocity (PLAYER (snd (checkCollisions_orb orb w)))
        = Victor (- vx (velocity (PLAYER w))) (- \<bar>vy (velocity (PLAYER w))\<bar> * 1.2)
    \<and> flings (PLAYER (snd (checkCollisions_orb orb w))) = flings (PLAYER w) + 1
    \<and> played (snd (checkCollisions_orb orb w)) = played w @ [SFX_Orb]
    \<and> vectorPosition (fst (checkCollisions_orb orb w))
        = Victor (randomSource w (randomCount w) * rect_width (nextCameraBound (CAMERA w))
                    + rect_x (nextCameraBound (CAMERA w)))
                 (randomSource w (Suc (randomCount w)) * rect_height (nextCameraBound (CAMERA w))
                    + rect_y (nextCameraBound (CAMERA w)))
    \<and> (0 \<le> randomSource w (randomCount w) \<and> randomSource w (randomCount w) \<le> 1
        \<and> 0 \<le> randomSource w (Suc (randomCount w)) \<and> randomSource w (Suc (randomCount w)) \<le> 1
        \<and> 0 \<le> rect_width (nextCameraBound (CAMERA w))
        \<and> 0 \<le> rect_height (nextCameraBound (CAMERA w)) \<longrightarrow>
          rect_left (nextCameraBound (CAMERA w)) \<le> vx (vectorPosition (fst (checkCollisions_orb orb w)))
        \<and> vx (vectorPosition (fst (checkCollisions_orb orb w))) \<le> rect_right (nextCameraBound (CAMERA w))
        \<and> rect_top (nextCameraBound (CAMERA w)) \<le> vy (vectorPosition (fst (checkCollisions_orb orb w)))
        \<and> vy (vectorPosition (fst (checkCollisions_orb orb w))) \<le> rect_bottom (nextCameraBound (CAMERA w)))"
    using hit pos inside by blast
  have c2: "0 \<le> flings (PLAYER w) \<longrightarrow>
        flings (PLAYER (snd (forEach checkCollisions_orb (ORBS w) w)))
          = flings (PLAYER w) + int (length (filter (Player_isColliding (PLAYER w)) (ORBS w)))"
    using forEach_orb_flings[of w "ORBS w"] by blast
  have c3: "0 \<le> flings (PLAYER w) \<longrightarrow>
        flings (PLAYER (checkCollisions w)) =
          max 0 (flings (PLAYER w)
                 + int (length (filter (Player_isColliding (PLAYER w)) (ORBS w)))
                 - int (length (filter (Player_isColliding (PLAYER w)) (SPIKES w))))"
    using checkCollisions_flings_count[of w] by blast
  show ?thesis
    using c1 checkCollisions_played[of w] c2 idle aiming vel c3 len nth within one
    by (intro conjI) blast+
qed

theorem orb_reaction_witness:
  "Player_isColliding (PLAYER playingWorld) (newOrb\<lparr>vectorPosition := Victor 260 10\<rparr>)
   \<and> velocity (PLAYER playingWorld) = Victor 10 (- 50)
   \<and> flings (PLAYER playingWorld) = 5
   \<and> nextCameraBound (CAMERA playingWorld)
       = \<lparr>rect_x = 0, rect_y = - 1125, rect_width = 500, rect_height = 750\<rparr>
   \<and> velocity (PLAYER (snd (checkCollisions_orb (newOrb\<lparr>vectorPosition := Victor 260 10\<rparr>)
         playingWorld))) = Victor (- 10) (- 60)
   \<and> flings (PLAYER (snd (checkCollisions_orb (newOrb\<lparr>vectorPosition := Victor 260 10\<rparr>)
         playingWorld))) = 6
   \<and> vectorPosition (fst (checkCollisions_orb (newOrb\<lparr>vectorPosition := Victor 260 10\<rparr>)
         playingWorld)) = Victor 250 (- 750)
   \<and> played (checkCollisions playingWorld) = [SFX_Orb]
   \<and> flings (PLAYER (snd (forEach checkCollisions_orb (ORBS playingWorld) playingWorld))) = 6
   \<and> Player_fsm playingWorld = checkCollisions playingWorld
   \<and> playerState (PLAYER aimingWorld) = Aiming
   \<and> Player_fsm aimingWorld = whenAim (checkCollisions aimingWorld)
   \<and> ORBS playingWorld = [newOrb\<lparr>vectorPosition := Victor 260 10\<rparr>, newOrb]
   \<and> velocity (PLAYER (checkCollisions playingWorld)) = Victor (- 10) (- 60)
   \<and> flings (PLAYER (checkCollisions playingWorld)) = 6
   \<and> velocity (PLAYER (Player_fsm playingWorld)) = Victor (- 10) (- 60)
   \<and> flings (PLAYER (Player_fsm playingWorld)) = 6
   \<and> length (ORBS (checkCollisions playingWorld)) = 2
   \<and> vectorPosition (ORBS (checkCollisions playingWorld) ! 0) = Victor 250 (- 750)
   \<and> ORBS (checkCollisions playingWorld) ! 1 = newOrb"
proof -
  have c: "Player_isColliding (PLAYER playingWorld) (newOrb\<lparr>vectorPosition := Victor 260 10\<rparr>)"
    "\<not> Player_isColliding (PLAYER playingWorld) newOrb"
    by (simp_all add: Player_isColliding_def world_defs start_defs const_defs vec_defs Let_def)
  have p: "velocity (PLAYER playingWorld) = Victor 10 (- 50)" "flings (PLAYER playingWorld) = 5"
    "played playingWorld = []" "playerState (PLAYER playingWorld) = Idle"
    "randomSource playingWorld = (\<lambda>i. 1 / 2)"
    "ORBS playingWorld = [newOrb\<lparr>vectorPosition := Victor 260 10\<rparr>, newOrb]"
    by (simp_all add: world_defs start_defs Let_def)
  have n: "nextCameraBound (CAMERA playingWorld)
       = \<lparr>rect_x = 0, rect_y = - 1125, rect_width = 500, rect_height = 750\<rparr>"
    by (simp add: world_defs start_defs const_defs Let_def computeMatrix_def
        computeBoundingRectangle_def canvasToWorld_def Matrix_applyInverse_def
        Matrix_translate_def Matrix_scale_def Matrix_identity_def)
  have o: "filter (Player_isColliding (PLAYER playingWorld)) (SPIKES playingWorld) = []"
    by (simp add: Player_isColliding_def world_defs start_defs const_defs vec_defs Let_def)
  have wv: "\<not> Wave_isColliding (WAVE playingWorld) (vectorPosition (PLAYER playingWorld))"
    by (simp add: Wave_isColliding_def rect_contains_def world_defs start_defs const_defs Let_def)
  have a: "playerState (PLAYER aimingWorld) = Aiming"
    "\<not> Wave_isColliding (WAVE aimingWorld) (vectorPosition (PLAYER aimingWorld))"
    by (simp_all add: Wave_isColliding_def rect_contains_def world_defs start_defs const_defs
        Let_def)
  have r: "vectorPosition (fst (Orb_respawn
        \<lparr>rect_x = 0, rect_y = - 1125, rect_width = 500, rect_height = 750\<rparr> ob
        (playingWorld\<lparr>randomCount := k\<rparr>))) = Victor 250 (- 750)" for ob k
    by (simp add: Orb_respawn_def Obstacle_respawn_eq setScale_def p rect_defs)
  have r0: "vectorPosition (fst (Orb_respawn
        \<lparr>rect_x = 0, rect_y = - 1125, rect_width = 500, rect_height = 750\<rparr> ob
        playingWorld)) = Victor 250 (- 750)" for ob
    by (simp add: Orb_respawn_def Obstacle_respawn_eq setScale_def p rect_defs)
  have A: "Player_fsm aimingWorld = whenAim (checkCollisions aimingWorld)"
    using orb_reaction[of aimingWorld "newOrb\<lparr>vectorPosition := Victor 260 10\<rparr>"] a
    by blast
  have B: "played (checkCollisions playingWorld) = [SFX_Orb]
   \<and> flings (PLAYER (snd (forEach checkCollisions_orb (ORBS playingWorld) playingWorld))) = 6
   \<and> Player_fsm playingWorld = checkCollisions playingWorld
   \<and> velocity (PLAYER (checkCollisions playingWorld)) = Victor (- 10) (- 60)
   \<and> flings (PLAYER (checkCollisions playingWorld)) = 6
   \<and> length (ORBS (checkCollisions playingWorld)) = 2
   \<and> vectorPosition (ORBS (checkCollisions playingWorld) ! 0) = Victor 250 (- 750)
   \<and> ORBS (checkCollisions playingWorld) ! 1 = newOrb
   \<and> velocity (PLAYER (snd (checkCollisions_orb (newOrb\<lparr>vectorPosition := Victor 260 10\<rparr>)
         playingWorld))) = Victor (- 10) (- 60)
   \<and> flings (PLAYER (snd (checkCollisions_orb (newOrb\<lparr>vectorPosition := Victor 260 10\<rparr>)
         playingWorld))) = 6
   \<and> vectorPosition (fst (checkCollisions_orb (newOrb\<lparr>vectorPosition := Victor 260 10\<rparr>)
         playingWorld)) = Victor 250 (- 750)"
    using orb_reaction[of playingWorld "newOrb\<lparr>vectorPosition := Victor 260 10\<rparr>"]
    by (simp add: c p n o wv r r0 All_less_Suc2 numeral_2_eq_2)
  show ?thesis
    using A B by (simp add: c p n a)
qed

section \<open>The force of a release\<close>

lemma whenAim_flingForce:
  "flingForce (PLAYER (whenAim w)) = subtract (mouseDownCanvasPosition w) (mouseCanvasPosition w)"
proof -
  obtain l cam where "whenAim w =
     w\<lparr>PLAYER := (PLAYER w)\<lparr>flingForce :=
            subtract (mouseDownCanvasPosition w) (mouseCanvasPosition w),
          aimingIndicatorList := l\<rparr>,
       CAMERA := cam\<rparr>" using whenAim_shape by blast
  then show ?thesis by simp
qed

lemma whenAlive_mouse:
  "mouseCanvasPosition (whenAlive w) = mouseCanvasPosition w"
  "mouseDownCanvasPosition (whenAlive w) = mouseDownCanvasPosition w"
proof -
  have 1: "mouseCanvasPosition (checkCollisions w) = mouseCanvasPosition w"
    by (rule checkCollisions_frame) simp
  have 2: "mouseDownCanvasPosition (checkCollisions w) = mouseDownCanvasPosition w"
    by (rule checkCollisions_frame) simp
  have 3: "mouseCanvasPosition (onDeath w) = mouseCanvasPosition w"
    "mouseDownCanvasPosition (onDeath w) = mouseDownCanvasPosition w"
    by (simp_all add: onDeath_def exitAiming_def playSound_def recordDeathHeight_def
        saveHighestsDeath_def Let_def)
  show "mouseCanvasPosition (whenAlive w) = mouseCanvasPosition w"
    "mouseDownCanvasPosition (whenAlive w) = mouseDownCanvasPosition w"
    using whenAlive_cases[of w] 1 2 3 by auto
qed

lemma Player_fsm_Aiming:
  assumes "playerState (PLAYER (Player_fsm w)) = Aiming"
  shows "flingForce (PLAYER (Player_fsm w))
           = subtract (mouseDownCanvasPosition w) (mouseCanvasPosition w)"
proof -
  have "playerState (PLAYER w) = Aiming"
    using Player_fsm_state[of w] assms by auto
  then have "Player_fsm w = whenAim (whenAlive w)" by (simp add: Player_fsm_def)
  then show ?thesis by (simp add: whenAim_flingForce whenAlive_mouse)
qed

lemma update_Aiming_flingForce:
  assumes "currentScene w = SCENE_Game" and "playerState (PLAYER (update ms w)) = Aiming"
  shows "flingForce (PLAYER (update ms w))
           = subtract (mouseDownCanvasPosition w) (mouseCanvasPosition w)"
proof -
  obtain w5 where w5: "updateGame ms w = Wave_update (Player_update w5)"
     "mouseCanvasPosition w5 = mouseCanvasPosition w"
     "mouseDownCanvasPosition w5 = mouseDownCanvasPosition w"
    using updateGame_shape by blast
  have "playerState (PLAYER (Player_fsm w5)) = Aiming"
    using assms w5(1) by (simp add: update_def Wave_update_others Player_update_player)
  then have "flingForce (PLAYER (Player_fsm w5))
           = subtract (mouseDownCanvasPosition w5) (mouseCanvasPosition w5)"
    by (rule Player_fsm_Aiming)
  then show ?thesis
    using assms(1) w5 by (simp add: update_def Wave_update_others Player_update_player)
qed

lemma update_stays_Aiming:
  assumes "currentScene w = SCENE_Game" and "playerState (PLAYER w) = Aiming"
    and "\<not> Wave_isColliding (WAVE w) (vectorPosition (PLAYER w))"
  shows "playerState (PLAYER (update ms w)) = Aiming"
proof -
  obtain w5 where w5: "updateGame ms w = Wave_update (Player_update w5)"
     "PLAYER w5 = PLAYER w" "WAVE w5 = WAVE w"
    using updateGame_shape by blast
  have cc: "playerState (PLAYER (checkCollisions w5)) = playerState (PLAYER w5)"
    by (rule checkCollisions_frame) simp
  have "Player_fsm w5 = whenAim (checkCollisions w5)"
    using assms(2,3) w5(2,3) by (simp add: Player_fsm_def whenAlive_def)
  then have "playerState (PLAYER (Player_fsm w5)) = Aiming"
    using assms(2) w5(2) by (simp add: whenAim_player cc)
  then show ?thesis
    using assms(1) w5(1) by (simp add: update_def Wave_update_others Player_update_player)
qed

lemma release_velocity:
  assumes "playerState (PLAYER w) = Aiming"
    and "\<not> lengthSq (flingForce (PLAYER w)) < FLING_FORCE_MIN" and "flings (PLAYER w) \<noteq> 0"
  shows "velocity (PLAYER (onpointerup cx cy w)) = multiplyScalar (flingForce (PLAYER w)) 5"
    and "velocity (PLAYER (onpointerup cx cy (onpointermove mx my w)))
          = multiplyScalar (flingForce (PLAYER w)) 5"
  using assms
  by (simp_all add: onpointerup_def onpointermove_def onFling_def exitAiming_def playSound_def
      setFlingAmount_def Let_def)

lemma release_positions:
  "mouseUpCanvasPosition (onpointerup cx cy w) = subtract (Victor cx cy) (APP_CLIENT_POSITION w)"
  "mouseDownCanvasPosition (onpointerup cx cy w) = mouseDownCanvasPosition w"
  "mouseDownCanvasPosition (onpointermove mx my w) = mouseDownCanvasPosition w"
  "APP_CLIENT_POSITION (onpointermove mx my w) = APP_CLIENT_POSITION w"
  by (simp_all add: onpointerup_def onpointermove_def onFling_def exitAiming_def playSound_def
      Let_def)

lemma whenAim_inputs:
  "mouseDownCanvasPosition (whenAim w) = mouseDownCanvasPosition w"
  "APP_CLIENT_POSITION (whenAim w) = APP_CLIENT_POSITION w"
  by (rule whenAim_frame, simp)+

text \<open>
  C4, as the code has it. A valid release sets the velocity to five times the player's
  stored \<open>flingForce\<close>, whatever the position of the release and whatever pointer move
  came before it. \<open>whenAim\<close> stores the press position minus the pointer position of
  that frame, so after every frame of the game that leaves the player \<open>Aiming\<close> the stored
  force is the press position minus the pointer position sampled in that frame. The
  position latched at release is stored and not read.
\<close>

theorem release_uses_stored_flingForce:
  "(playerState (PLAYER w) = Aiming
      \<and> \<not> lengthSq (flingForce (PLAYER w)) < FLING_FORCE_MIN \<and> flings (PLAYER w) \<noteq> 0 \<longrightarrow>
        velocity (PLAYER (onpointerup cx cy w)) = multiplyScalar (flingForce (PLAYER w)) 5
      \<and> velocity (PLAYER (onpointerup cx cy (onpointermove mx my w)))
          = multiplyScalar (flingForce (PLAYER w)) 5)
   \<and> mouseUpCanvasPosition (onpointerup cx cy w)
        = subtract (Victor cx cy) (APP_CLIENT_POSITION w)
   \<and> flingForce (PLAYER (whenAim w))
        = subtract (mouseDownCanvasPosition w) (mouseCanvasPosition w)
   \<and> (currentScene w = SCENE_Game \<and> playerState (PLAYER (update ms w)) = Aiming \<longrightarrow>
        flingForce (PLAYER (update ms w))
          = subtract (mouseDownCanvasPosition w) (mouseCanvasPosition w))"
proof -
  have up: "mouseUpCanvasPosition (onpointerup cx cy w)
        = subtract (Victor cx cy) (APP_CLIENT_POSITION w)"
    by (simp add: onpointerup_def onFling_def exitAiming_def playSound_def Let_def)
  have rel: "velocity (PLAYER (onpointerup cx cy w)) = multiplyScalar (flingForce (PLAYER w)) 5
      \<and> velocity (PLAYER (onpointerup cx cy (onpointermove mx my w)))
          = multiplyScalar (flingForce (PLAYER w)) 5"
    if "playerState (PLAYER w) = Aiming"
      "\<not> lengthSq (flingForce (PLAYER w)) < FLING_FORCE_MIN" "flings (PLAYER w) \<noteq> 0"
    using that
    by (simp add: onpointerup_def onpointermove_def onFling_def exitAiming_def playSound_def
        setFlingAmount_def Let_def)
  show ?thesis
    using up rel whenAim_flingForce[of w] update_Aiming_flingForce[of w ms]
    by blast
qed

theorem release_uses_stored_flingForce_witness:
  "playerState (PLAYER aimingWorld) = Aiming
   \<and> flingForce (PLAYER aimingWorld) = Victor 0 60
   \<and> flings (PLAYER aimingWorld) = 5
   \<and> currentScene aimingWorld = SCENE_Game
   \<and> velocity (PLAYER (onpointerup 100 0 (onpointermove 100 0 aimingWorld))) = Victor 0 300
   \<and> playerState (PLAYER (update 16 aimingWorld)) = Aiming
   \<and> flingForce (PLAYER (update 16 aimingWorld)) = Victor 0 60"
proof -
  have a: "playerState (PLAYER aimingWorld) = Aiming" "flingForce (PLAYER aimingWorld) = Victor 0 60"
    "flings (PLAYER aimingWorld) = 5" "currentScene aimingWorld = SCENE_Game"
    "mouseDownCanvasPosition aimingWorld = Victor 100 100"
    "mouseCanvasPosition aimingWorld = Victor 100 40"
    by (simp_all add: world_defs Let_def)
  have wv: "\<not> Wave_isColliding (WAVE aimingWorld) (vectorPosition (PLAYER aimingWorld))"
    by (simp add: Wave_isColliding_def rect_contains_def world_defs start_defs const_defs Let_def)
  have st: "playerState (PLAYER (update 16 aimingWorld)) = Aiming"
    using a(4) a(1) wv by (rule update_stays_Aiming)
  show ?thesis
    using release_uses_stored_flingForce[of aimingWorld 100 0 100 0 16] st
    by (simp add: a vec_defs const_defs)
qed

text \<open>
  C4 as stated fails when the pointer moves between the last frame and the release. The
  pointer is pressed at (100, 100) and has moved to (100, 40) when the frame's \<open>whenAim\<close>
  samples it and stores the force (0, 60); it then moves on and is released at (100, 0).
  The player leaves with velocity (0, 300), not with (press - release) * 5 = (0, 500).
\<close>

theorem release_position_counterexample:
  "playerState (PLAYER pressedWorld) = Aiming
   \<and> flingForce (PLAYER pressedWorld) = Victor 0 0
   \<and> mouseDownCanvasPosition pressedWorld = Victor 100 100
   \<and> mouseCanvasPosition pressedWorld = Victor 100 40
   \<and> flingForce (PLAYER (whenAim pressedWorld)) = Victor 0 60
   \<and> mouseDownCanvasPosition (onpointerup 100 0 (onpointermove 100 0 (whenAim pressedWorld)))
       = Victor 100 100
   \<and> mouseUpCanvasPosition (onpointerup 100 0 (onpointermove 100 0 (whenAim pressedWorld)))
       = Victor 100 0
   \<and> velocity (PLAYER (onpointerup 100 0 (onpointermove 100 0 (whenAim pressedWorld))))
       = Victor 0 300
   \<and> multiplyScalar (subtract
         (mouseDownCanvasPosition (onpointerup 100 0 (onpointermove 100 0 (whenAim pressedWorld))))
         (mouseUpCanvasPosition (onpointerup 100 0 (onpointermove 100 0 (whenAim pressedWorld)))))
         5
       = Victor 0 500"
proof -
  have p: "playerState (PLAYER pressedWorld) = Aiming" "flingForce (PLAYER pressedWorld) = Victor 0 0"
    "mouseDownCanvasPosition pressedWorld = Victor 100 100"
    "mouseCanvasPosition pressedWorld = Victor 100 40" "flings (PLAYER pressedWorld) = 5"
    "APP_CLIENT_POSITION pressedWorld = Victor 0 0"
    by (simp_all add: pressedWorld_def world_defs start_defs Let_def)
  have ff: "flingForce (PLAYER (whenAim pressedWorld)) = Victor 0 60"
    by (simp add: whenAim_flingForce p subtract_def)
  have v: "velocity (PLAYER (onpointerup 100 0 (onpointermove 100 0 (whenAim pressedWorld))))
       = multiplyScalar (flingForce (PLAYER (whenAim pressedWorld))) 5"
    by (rule release_velocity(2))
       (simp_all add: whenAim_player p ff lengthSq_def FLING_FORCE_MIN_def)
  show ?thesis
    by (simp add: p ff v release_positions whenAim_inputs subtract_def multiplyScalar_def)
qed

end
